theory Spec2Isabelle
  imports Complex_Main
begin

section \<open>Koenote client: the upload-and-poll workflow of frontend/src/app/page.tsx\<close>

text \<open>
  The development embeds the functions of the component \<open>KoenotoApp\<close> that make up the
  recording pipeline: \<open>createChunks\<close>, \<open>uploadChunks\<close>, \<open>processAudio\<close>, \<open>startPolling\<close>
  with its timer callback, \<open>resetState\<close>, \<open>startRecording\<close> and \<open>fetchRecordings\<close>.

  The component state (the \<open>useState\<close> cells) is a record that every function takes and
  returns. The browser is part of that record too: the table of live interval timers, the
  sequence of \<open>fetch\<close> calls with their settlements, and the lines written by
  \<open>console.error\<close>. A response of the backend is an argument of the function that awaits
  it. Every \<open>throw\<close> is a value of \<open>js_error\<close> on the left of a sum.
\<close>

subsection \<open>Values decoded from JSON\<close>

text \<open>
  What \<open>response.json()\<close> and \<open>JSON.parse\<close> return. The TypeScript annotations are erased
  at run time, so a state cell filled from a response holds whatever value the response
  carried. \<open>undefined\<close> (an absent property) is \<open>None\<close> of \<open>json option\<close>. An object lists
  its own properties; a lookup takes the first binding of a name, so an object is written
  with one binding per name.
\<close>

datatype json =
    JNull
  | JBool bool
  | JNum rat
  | JStr string
  | JArr "json list"
  | JObj "(string \<times> json) list"

datatype js_error =
    FetchRejected
  | SyntaxError
  | TypeError
  | ListFetchError nat
  | PresignRequestError nat
  | PresignResponseError
  | ChunkUploadError nat nat
  | UploadEmptyError
  | ProcessingStartError nat json
  | UnexpectedResponseShape

text \<open>
  \<open>FetchRejected\<close>: the promise of \<open>fetch\<close> rejected. \<open>SyntaxError\<close>: \<open>response.json()\<close>
  rejected because the body is not JSON. \<open>TypeError\<close>: a property read on \<open>null\<close> or
  \<open>undefined\<close>, a call of something that is not a function, or a conversion to a
  string that finds nothing to call. The others are the
  \<open>new Error(...)\<close> values of the source, with the numbers and values their messages
  interpolate: line 244, 308, 324, 337 (chunk number and status), 395, 425 (status and
  \<open>errorData.error || 'Unknown error'\<close>) and 462.
\<close>

text \<open>JavaScript truthiness, as \<open>if (v)\<close>, \<open>!v\<close>, \<open>v && ...\<close> and \<open>v || ...\<close> test it.\<close>

fun truthy :: "json option \<Rightarrow> bool" where
  "truthy None = False"
| "truthy (Some JNull) = False"
| "truthy (Some (JBool b)) = b"
| "truthy (Some (JNum n)) = (n \<noteq> 0)"
| "truthy (Some (JStr s)) = (s \<noteq> [])"
| "truthy (Some (JArr xs)) = True"
| "truthy (Some (JObj kvs)) = True"

text \<open>\<open>v || d\<close> for a default \<open>d\<close> that is a value.\<close>

definition orElse :: "json option \<Rightarrow> json \<Rightarrow> json" where
  "orElse v d = (case v of None \<Rightarrow> d | Some j \<Rightarrow> if truthy (Some j) then j else d)"

text \<open>
  Reading a property throws on \<open>null\<close> and \<open>undefined\<close> (\<open>deref\<close>); on any other value it
  yields the own property of an object and \<open>undefined\<close> otherwise (\<open>field\<close>). None of the
  names the source reads this way (status, result, title, transcript, summary, keywords,
  audioUrl, audioChunks, error, message, percentComplete, executionArn, presignedUrl, key)
  is inherited from a prototype; \<open>length\<close>, \<open>map\<close>, \<open>split\<close> and \<open>sort\<close> are treated where
  they are used.
\<close>

definition deref :: "json option \<Rightarrow> js_error + json" where
  "deref v = (case v of None \<Rightarrow> Inl TypeError | Some JNull \<Rightarrow> Inl TypeError | Some j \<Rightarrow> Inr j)"

fun field :: "json \<Rightarrow> string \<Rightarrow> json option" where
  "field (JObj kvs) k = map_of kvs k"
| "field j k = None"

text \<open>
  Conversion to a string, as a template literal \<open>`${v}`\<close> and the URL argument of
  \<open>fetch\<close> perform it. \<open>stringifies v\<close> says that the conversion returns; otherwise it
  throws a \<open>TypeError\<close>. Primitive values convert. An array converts through \<open>join\<close>,
  which converts each element (\<open>null\<close> to the empty string). An object decoded from JSON
  has no callable property of its own, so an own property named \<open>toString\<close> hides the
  inherited method and the conversion finds nothing to call (the inherited \<open>valueOf\<close>
  returns the object itself, an own one cannot be called); without such a property the
  inherited method answers. The text a conversion returns is not modelled: a value that
  was converted is kept as the value.
\<close>

fun stringifies :: "json \<Rightarrow> bool" where
  "stringifies (JArr xs) = list_all stringifies xs"
| "stringifies (JObj kvs) = (map_of kvs ''toString'' = None)"
| "stringifies j = True"

text \<open>The string literals of the source that end up inside values, as UTF-8 bytes.\<close>

definition untitled :: string where
  \<comment> \<open>the default title of lines 441 and 749 (Japanese for "untitled")\<close>
  "untitled = [CHR 0xE7, CHR 0x84, CHR 0xA1, CHR 0xE9, CHR 0xA1, CHR 0x8C]"

definition unknownError :: string where
  \<comment> \<open>the fallback of line 777 (Japanese for "unknown error")\<close>
  "unknownError = [CHR 0xE4, CHR 0xB8, CHR 0x8D, CHR 0xE6, CHR 0x98, CHR 0x8E, CHR 0xE3, CHR 0x81,
     CHR 0xAA, CHR 0xE3, CHR 0x82, CHR 0xA8, CHR 0xE3, CHR 0x83, CHR 0xA9, CHR 0xE3, CHR 0x83,
     CHR 0xBC]"

definition inProgress :: string where
  \<comment> \<open>the fallback of line 781 (Japanese for "processing...")\<close>
  "inProgress = [CHR 0xE5, CHR 0x87, CHR 0xA6, CHR 0xE7, CHR 0x90, CHR 0x86, CHR 0xE4, CHR 0xB8,
     CHR 0xAD, CHR 0x2E, CHR 0x2E, CHR 0x2E]"

subsection \<open>The network, the console and the timers\<close>

record blob =
  b_type :: string
  b_size :: nat
  b_bytes :: "nat list"

text \<open>
  \<open>Filename t i ext\<close> is the template \<open>chunk_${Date.now()}_${i}.${extension}\<close> of line 293
  and \<open>BucketUrl k\<close> the template \<open>https://${AUDIO_BUCKET_NAME}.s3.amazonaws.com/${key}\<close> of
  lines 400 and 760.
\<close>

datatype filename = Filename nat nat string

datatype url = BucketUrl json

datatype request =
    GetList
  | PostPresign filename string
  | PutChunk json string blob
  | PostProcess "json list"
  | GetStatus json

text \<open>
  The requests are those of lines 242, 298 (filename and content type of the body), 330
  (the presigned URL, the \<open>Content-Type\<close> header and the body), 412 (the \<open>audioKeys\<close> of the
  body) and 727 (the execution identifier of the query string).

  A response is a rejected \<open>fetch\<close>, or an HTTP status with the body as \<open>response.json()\<close>
  reads it: \<open>None\<close> when the body is not JSON.
\<close>

datatype response = Rejected | Resp nat "json option"

definition ok :: "nat \<Rightarrow> bool" where
  "ok st = (200 \<le> st \<and> st \<le> 299)"

datatype net_event = Sent request | Settled response

datatype console_entry =
    ErrChunkUpload nat js_error
  | ErrInvalidPresign json
  | ErrApi json
  | ErrProcessing js_error
  | ErrResultDecode
  | ErrStatus js_error
  | ErrStartRecording

text \<open>
  The \<open>console.error\<close> calls of lines 344, 323, 424, 465, 744, 790 and 612. Output of
  \<open>console.log\<close> is not recorded.
\<close>

datatype message =
    NoMessage
  | ListLoading
  | ListFailed js_error
  | UploadingChunk nat nat
  | AudioProcessing
  | ProcessingStarting
  | StartingUp
  | ProcessingDone
  | AudioProcessingFailed js_error
  | WorkflowFailed json
  | StatusFetchFailed
  | Progress json
  | PercentProgress json
  | RecordingNow
  | RecordStartFailed

text \<open>
  The texts given to \<open>setStatus\<close> and \<open>setProcessingStatus\<close>, one constructor for each
  literal or template of the source: the empty string (253, 436), line 241, line 255 with
  the message of the caught error, line 285 with \<open>i+1\<close> and \<open>chunks.length\<close>, lines 381 and
  437, line 409, line 410, lines 445 and 767, line 466 with the message of the caught
  error, line 777 with \<open>data.error || ...\<close>, line 791, line 782 with
  \<open>data.message || ...\<close>, line 786 with \<open>data.percentComplete\<close>, line 562 and line 613.
\<close>

record timer =
  t_handle :: nat
  t_arn :: json
  t_period :: nat

text \<open>
  A live interval timer of \<open>startPolling\<close>: the handle \<open>setInterval\<close> returned, the
  \<open>executionArn\<close> its callback closes over and its period in milliseconds.

  The record below holds the state cells under their names in the source; the cell
  \<open>keywords\<close> is the field \<open>keywordList\<close>, since its own name is a reserved word here.
\<close>

record world =
  status :: message
  selectedRecording :: "json option"
  recordings :: "json list"
  isEditingBeforeSave :: bool
  title :: json
  transcript :: json
  summary :: json
  keywordList :: json
  recordingDuration :: string
  uploadedAudioUrl :: json
  audioChunks :: "url list"
  currentChunkIndex :: nat
  executionArn :: "json option"
  processingStatus :: "message option"
  pollingInterval :: "nat option"
  errorMessage :: "string option"
  showAudioPlayer :: bool
  isRecording :: bool
  timers :: "timer list"
  nextHandle :: nat
  network :: "net_event list"
  console :: "console_entry list"

text \<open>
  The parts of the JavaScript runtime that the source calls and that are taken as given:
  \<open>JSON.parse\<close> (\<open>None\<close> when it throws), \<open>parseInt\<close> (\<open>None\<close> for \<open>NaN\<close>), the comparison
  \<open>v > 0\<close> on an arbitrary value, and the call \<open>data.sort(...)\<close> of lines 247 to 251 on an
  array (the order \<open>Array.prototype.sort\<close> produces under the date comparator, which returns
  \<open>NaN\<close> on unparsable dates, or the error thrown when the comparator reads \<open>date\<close> of a
  \<open>null\<close> element or interpolates a \<open>date\<close> or \<open>start_time\<close> that does not convert to a
  string).
\<close>

record runtime =
  JSON_parse :: "string \<Rightarrow> json option"
  parseInt :: "string \<Rightarrow> int option"
  greaterThanZero :: "json option \<Rightarrow> bool"
  sortByDateDesc :: "json list \<Rightarrow> js_error + json list"

subsection \<open>Recording Store: \<open>fetchRecordings\<close> (lines 239 to 259)\<close>

definition sortRecordings :: "runtime \<Rightarrow> json \<Rightarrow> js_error + json list" where
  \<comment> \<open>\<open>data.sort(...)\<close>: only an array has the method\<close>
  "sortRecordings rt data =
     (case data of JArr xs \<Rightarrow> sortByDateDesc rt xs | _ \<Rightarrow> Inl TypeError)"

definition listOutcome :: "runtime \<Rightarrow> response \<Rightarrow> js_error + json list" where
  \<comment> \<open>the body of the \<open>try\<close> block after the request: lines 242 to 251\<close>
  "listOutcome rt resp =
     (case resp of
        Rejected \<Rightarrow> Inl FetchRejected
      | Resp st body \<Rightarrow>
          if \<not> ok st then Inl (ListFetchError st)
          else (case body of
                  None \<Rightarrow> Inl SyntaxError
                | Some data \<Rightarrow> sortRecordings rt data))"

definition fetchRecordings :: "runtime \<Rightarrow> response \<Rightarrow> world \<Rightarrow> world" where
  "fetchRecordings rt resp w =
     (let w1 = w\<lparr>status := ListLoading,
                 network := network w @ [Sent GetList, Settled resp]\<rparr>
      in case listOutcome rt resp of
           Inl e \<Rightarrow> w1\<lparr>status := ListFailed e\<rparr>
         | Inr sortedData \<Rightarrow> w1\<lparr>recordings := sortedData, status := NoMessage\<rparr>)"

subsection \<open>Chunker: \<open>createChunks\<close> (lines 352 to 377)\<close>

definition MAX_CHUNK_SIZE :: rat where
  "MAX_CHUNK_SIZE = (1 / 10) * 1024 * 1024"

text \<open>
  The branch for a large blob computes a chunk count and a duration per chunk, the latter
  from the \<open>recordingDuration\<close> cell; both are only logged, and the function returns the
  blob it was given.
\<close>

definition createChunks :: "runtime \<Rightarrow> world \<Rightarrow> blob \<Rightarrow> blob list" where
  "createChunks rt w audioBlob =
     (if of_nat (b_size audioBlob) \<le> MAX_CHUNK_SIZE then [audioBlob]
      else
        (let chunkCount = \<lceil>of_nat (b_size audioBlob) / MAX_CHUNK_SIZE\<rceil>;
             audioDuration = (if recordingDuration w \<noteq> [] then parseInt rt (recordingDuration w)
                              else Some 60);
             secondsPerChunk = map_option (\<lambda>d. \<lceil>(of_int d :: rat) / of_int chunkCount\<rceil>) audioDuration
         in [audioBlob]))"

subsection \<open>Uploader: \<open>uploadChunks\<close> (lines 280 to 350)\<close>

text \<open>
  What the outside world answers during an upload, by chunk index: the value of
  \<open>Date.now()\<close> when the filename of chunk \<open>i\<close> is built, the response to its presign
  request and the response to its PUT. The loop issues each request at most once, so one
  response per chunk and kind describes every run.
\<close>

record upload_env =
  now :: "nat \<Rightarrow> nat"
  presignResponse :: "nat \<Rightarrow> response"
  putResponse :: "nat \<Rightarrow> response"

text \<open>\<open>s.includes(sub)\<close>.\<close>

fun includesStr :: "string \<Rightarrow> string \<Rightarrow> bool" where
  "includesStr [] sub = (sub = [])"
| "includesStr (c # cs) sub = (take (length sub) (c # cs) = sub \<or> includesStr cs sub)"

text \<open>\<open>s.split('/').pop()\<close>: what follows the last slash, the whole string if it has none.\<close>

definition lastSegment :: "string \<Rightarrow> string" where
  "lastSegment s = rev (takeWhile (\<lambda>c. c \<noteq> CHR ''/'') (rev s))"

text \<open>
  Lines 315 to 325. Only a string has \<open>split\<close>: a truthy \<open>audioUrl\<close> of another type makes
  the call throw.
\<close>

definition presignExtract :: "json \<Rightarrow> js_error + json \<times> json" where
  "presignExtract presignedData =
     (case deref (Some presignedData) of
        Inl e \<Rightarrow> Inl e
      | Inr d \<Rightarrow>
          (let presignedUrl = field d ''presignedUrl'';
               key0 = field d ''key''
           in case (if \<not> truthy key0 \<and> truthy (field d ''audioUrl'')
                    then (case field d ''audioUrl'' of
                            Some (JStr s) \<Rightarrow> Inr (Some (JStr (lastSegment s)))
                          | _ \<Rightarrow> Inl TypeError)
                    else Inr key0) of
                Inl e \<Rightarrow> Inl e
              | Inr key \<Rightarrow>
                  if \<not> truthy presignedUrl \<or> \<not> truthy key then Inl PresignResponseError
                  else (case (presignedUrl, key) of
                          (Some u, Some k) \<Rightarrow> Inr (u, k)
                        | _ \<Rightarrow> Inl PresignResponseError)))"

text \<open>Lines 289 and 290.\<close>

definition extensionOf :: "blob \<Rightarrow> string" where
  "extensionOf chunk = (if includesStr (b_type chunk) ''webm'' then ''webm'' else ''wav'')"

definition contentTypeOf :: "blob \<Rightarrow> string" where
  "contentTypeOf chunk = (if includesStr (b_type chunk) ''webm'' then ''audio/webm'' else ''audio/wav'')"

text \<open>
  One iteration of the loop, up to the \<open>push\<close>: lines 285 to 338. The key is converted to
  a string by the template literal of line 327, before the PUT, and \<open>fetch\<close> converts
  the presigned URL at line 330 before it sends anything; either conversion can throw.
  (The template of line 342 converts the same key again.)
\<close>

definition uploadOne ::
  "upload_env \<Rightarrow> nat \<Rightarrow> nat \<Rightarrow> blob \<Rightarrow> world \<Rightarrow> (js_error + json) \<times> world" where
  "uploadOne env n i chunk w =
     (let w1 = w\<lparr>status := UploadingChunk (i + 1) n\<rparr>;
          extension = extensionOf chunk;
          contentType = contentTypeOf chunk;
          fname = Filename (now env i) i extension;
          w2 = w1\<lparr>network := network w1 @
                  [Sent (PostPresign fname contentType), Settled (presignResponse env i)]\<rparr>
      in case presignResponse env i of
           Rejected \<Rightarrow> (Inl FetchRejected, w2)
         | Resp st body \<Rightarrow>
             if \<not> ok st then (Inl (PresignRequestError st), w2)
             else (case body of
                     None \<Rightarrow> (Inl SyntaxError, w2)
                   | Some presignedData \<Rightarrow>
                       (case presignExtract presignedData of
                          Inl e \<Rightarrow>
                            (Inl e, if e = PresignResponseError
                                    then w2\<lparr>console := console w2 @ [ErrInvalidPresign presignedData]\<rparr>
                                    else w2)
                        | Inr (presignedUrl, key) \<Rightarrow>
                            if \<not> stringifies key then (Inl TypeError, w2)
                            else if \<not> stringifies presignedUrl then (Inl TypeError, w2)
                            else
                              (let w3 = w2\<lparr>network := network w2 @
                                          [Sent (PutChunk presignedUrl contentType chunk),
                                           Settled (putResponse env i)]\<rparr>
                               in case putResponse env i of
                                    Rejected \<Rightarrow> (Inl FetchRejected, w3)
                                  | Resp st' body' \<Rightarrow>
                                      if \<not> ok st' then (Inl (ChunkUploadError (i + 1) st'), w3)
                                      else (Inr key, w3)))))"

text \<open>
  The \<open>for\<close> loop with its index, the rest of the chunks and the array \<open>uploadedUrls\<close>. The
  \<open>catch\<close> of line 343 logs and throws again.
\<close>

fun uploadLoop ::
  "upload_env \<Rightarrow> nat \<Rightarrow> nat \<Rightarrow> blob list \<Rightarrow> json list \<Rightarrow> world \<Rightarrow> (js_error + json list) \<times> world" where
  "uploadLoop env n i [] uploadedUrls w = (Inr uploadedUrls, w)"
| "uploadLoop env n i (chunk # rest) uploadedUrls w =
     (case uploadOne env n i chunk w of
        (Inl e, w') \<Rightarrow> (Inl e, w'\<lparr>console := console w' @ [ErrChunkUpload i e]\<rparr>)
      | (Inr key, w') \<Rightarrow> uploadLoop env n (i + 1) rest (uploadedUrls @ [key]) w')"

definition uploadChunks ::
  "upload_env \<Rightarrow> blob list \<Rightarrow> world \<Rightarrow> (js_error + json list) \<times> world" where
  "uploadChunks env chunks w = uploadLoop env (length chunks) 0 chunks [] w"

subsection \<open>Timers and the polling effect\<close>

definition setInterval :: "json \<Rightarrow> nat \<Rightarrow> world \<Rightarrow> nat \<times> world" where
  "setInterval a ms w =
     (nextHandle w,
      w\<lparr>timers := timers w @ [\<lparr>t_handle = nextHandle w, t_arn = a, t_period = ms\<rparr>],
        nextHandle := Suc (nextHandle w)\<rparr>)"

definition clearInterval :: "nat \<Rightarrow> world \<Rightarrow> world" where
  "clearInterval h w = w\<lparr>timers := filter (\<lambda>t. t_handle t \<noteq> h) (timers w)\<rparr>"

text \<open>
  \<open>setPollingInterval\<close> together with the effect of lines 801 to 807, which depends on
  \<open>pollingInterval\<close>: when the cell changes, React runs the cleanup of the previous render,
  and the cleanup clears the interval the cell held. React runs the cleanup after the
  render that follows the update has been committed; the model runs it with the update,
  that is, it takes a render to be committed between any two of the calls it composes.
  Unmounting the component runs the same cleanup.
\<close>

definition setPollingInterval :: "nat option \<Rightarrow> world \<Rightarrow> world" where
  "setPollingInterval v w =
     (let w1 = (case pollingInterval w of
                  None \<Rightarrow> w
                | Some old \<Rightarrow> if v = Some old then w else clearInterval old w)
      in w1\<lparr>pollingInterval := v\<rparr>)"

definition unmount :: "world \<Rightarrow> world" where
  "unmount w = (case pollingInterval w of None \<Rightarrow> w | Some h \<Rightarrow> clearInterval h w)"

subsection \<open>Status Poller: \<open>startPolling\<close> (lines 724 to 798)\<close>

definition startPolling :: "json \<Rightarrow> world \<Rightarrow> nat \<times> world" where
  "startPolling a w =
     (case setInterval a 3000 w of (interval, w1) \<Rightarrow> (interval, setPollingInterval (Some interval) w1))"

text \<open>
  Lines 738 to 746: the nested payload. A truthy \<open>resultData\<close> has no \<open>null\<close> to read a
  property of, so the test itself cannot throw.
\<close>

definition decodeNested :: "runtime \<Rightarrow> json option \<Rightarrow> world \<Rightarrow> json option \<times> world" where
  "decodeNested rt resultData w =
     (case resultData of
        None \<Rightarrow> (resultData, w)
      | Some r \<Rightarrow>
          if \<not> truthy resultData then (resultData, w)
          else (case field r ''result'' of
                  Some (JStr s) \<Rightarrow>
                    (case JSON_parse rt s of
                       Some v \<Rightarrow> (Some v, w)
                     | None \<Rightarrow> (resultData, w\<lparr>console := console w @ [ErrResultDecode]\<rparr>))
                | _ \<Rightarrow> (resultData, w)))"

text \<open>
  Lines 755 to 765: which audio reference the result carries. \<open>audioChunks.length > 0\<close> is
  the emptiness test on an array and on a string; a string and an object have no \<open>map\<close>,
  so the call throws; a boolean and a number have no \<open>length\<close>, and \<open>undefined > 0\<close> is
  false. The callback of \<open>map\<close> converts each key to a string (line 760) and throws on
  the first key that does not convert, before any cell is written.
\<close>

datatype audio_ref = AudioNone | AudioSingle json | AudioChunkUrls "url list"

definition audioOf :: "runtime \<Rightarrow> json \<Rightarrow> js_error + audio_ref" where
  "audioOf rt r =
     (if truthy (field r ''audioUrl'')
      then (case field r ''audioUrl'' of Some u \<Rightarrow> Inr (AudioSingle u) | None \<Rightarrow> Inr AudioNone)
      else (case field r ''audioChunks'' of
              Some (JArr ks) \<Rightarrow>
                if ks \<noteq> []
                then (if list_all stringifies ks then Inr (AudioChunkUrls (map BucketUrl ks))
                      else Inl TypeError)
                else Inr AudioNone
            | Some (JStr s) \<Rightarrow> if s \<noteq> [] then Inl TypeError else Inr AudioNone
            | Some (JObj kvs) \<Rightarrow>
                if greaterThanZero rt (map_of kvs ''length'') then Inl TypeError else Inr AudioNone
            | _ \<Rightarrow> Inr AudioNone))"

definition applyAudio :: "audio_ref \<Rightarrow> world \<Rightarrow> world" where
  "applyAudio a w =
     (case a of
        AudioNone \<Rightarrow> w
      | AudioSingle u \<Rightarrow> w\<lparr>uploadedAudioUrl := u, showAudioPlayer := True\<rparr>
      | AudioChunkUrls chunkUrls \<Rightarrow>
          w\<lparr>audioChunks := chunkUrls, currentChunkIndex := 0, showAudioPlayer := True\<rparr>)"

text \<open>
  Lines 733 to 772, the branch for \<open>completed\<close>. The cells are written in the order of the
  source, so what was written before a \<open>throw\<close> stays written. \<open>fetchRecordings()\<close> is
  called without \<open>await\<close>; its continuation is taken to run before anything else does.
\<close>

definition completedBranch ::
  "runtime \<Rightarrow> response \<Rightarrow> nat \<Rightarrow> json \<Rightarrow> world \<Rightarrow> (js_error + unit) \<times> world" where
  "completedBranch rt listResp interval d w =
     (let w1 = (setPollingInterval None (clearInterval interval w))\<lparr>executionArn := None\<rparr>
      in case decodeNested rt (field d ''result'') w1 of
           (resultData, w2) \<Rightarrow>
             (case deref resultData of
                Inl e \<Rightarrow> (Inl e, w2)
              | Inr r \<Rightarrow>
                  (let w3 = w2\<lparr>title := orElse (field r ''title'') (JStr untitled),
                               transcript := orElse (field r ''transcript'') (JStr []),
                               summary := orElse (field r ''summary'') (JStr []),
                               keywordList := orElse (field r ''keywords'') (JArr [])\<rparr>
                   in case audioOf rt r of
                        Inl e \<Rightarrow> (Inl e, w3)
                      | Inr a \<Rightarrow>
                          (let w4 = (applyAudio a w3)\<lparr>status := ProcessingDone,
                                                     processingStatus := None,
                                                     isEditingBeforeSave := True\<rparr>
                           in (Inr (), fetchRecordings rt listResp w4)))))"

text \<open>
  Lines 774 to 778, the branch for \<open>failed\<close>. The status text interpolates
  \<open>data.error || ...\<close>; when that value does not convert to a string the template throws
  after the poll was stopped and before \<open>setStatus\<close> is called.
\<close>

definition failedBranch :: "nat \<Rightarrow> json \<Rightarrow> world \<Rightarrow> (js_error + unit) \<times> world" where
  "failedBranch interval d w =
     (let w1 = (setPollingInterval None (clearInterval interval w))\<lparr>executionArn := None\<rparr>;
          e = orElse (field d ''error'') (JStr unknownError)
      in if stringifies e
         then (Inr (), w1\<lparr>status := WorkflowFailed e, processingStatus := None\<rparr>)
         else (Inl TypeError, w1))"

text \<open>
  Lines 781 to 787, any other status. The template of line 786 converts
  \<open>data.percentComplete\<close>; when it throws, the progress message of line 782 is already
  written.
\<close>

definition progressBranch :: "json \<Rightarrow> world \<Rightarrow> (js_error + unit) \<times> world" where
  "progressBranch d w =
     (let w1 = w\<lparr>processingStatus := Some (Progress (orElse (field d ''message'') (JStr inProgress)))\<rparr>
      in case field d ''percentComplete'' of
           None \<Rightarrow> (Inr (), w1)
         | Some p \<Rightarrow>
             if truthy (Some p)
             then (if stringifies p then (Inr (), w1\<lparr>processingStatus := Some (PercentProgress p)\<rparr>)
                   else (Inl TypeError, w1))
             else (Inr (), w1))"

text \<open>
  The \<open>try\<close> block of the callback once the request was sent and settled: lines 727 to
  788.
\<close>

definition pollBody ::
  "runtime \<Rightarrow> nat \<Rightarrow> response \<Rightarrow> response \<Rightarrow> world \<Rightarrow> (js_error + unit) \<times> world" where
  "pollBody rt interval statusResp listResp w =
     (case statusResp of
        Rejected \<Rightarrow> (Inl FetchRejected, w)
      | Resp st body \<Rightarrow>
          (case body of
             None \<Rightarrow> (Inl SyntaxError, w)
           | Some data \<Rightarrow>
               (case deref (Some data) of
                  Inl e \<Rightarrow> (Inl e, w)
                | Inr d \<Rightarrow>
                    if field d ''status'' = Some (JStr ''completed'')
                    then completedBranch rt listResp interval d w
                    else if field d ''status'' = Some (JStr ''failed'')
                    then failedBranch interval d w
                    else progressBranch d w)))"

text \<open>
  One run of the callback of interval \<open>interval\<close>, which closes over \<open>a\<close>. The URL of the
  request interpolates \<open>a\<close> inside the \<open>try\<close> block (line 727): when \<open>a\<close> does not
  convert to a string nothing is sent and the \<open>catch\<close> of lines 789 to 793 runs at once.
  Otherwise the request is sent, the \<open>try\<close> block handles the answer, and the \<open>catch\<close>
  takes what it throws. The run is atomic: the response is handled before any other
  event.
\<close>

definition pollTick ::
  "runtime \<Rightarrow> nat \<Rightarrow> json \<Rightarrow> response \<Rightarrow> response \<Rightarrow> world \<Rightarrow> world" where
  "pollTick rt interval a statusResp listResp w =
     (case (if stringifies a
            then pollBody rt interval statusResp listResp
                   (w\<lparr>network := network w @ [Sent (GetStatus a), Settled statusResp]\<rparr>)
            else (Inl TypeError, w)) of
        (Inl e, w') \<Rightarrow>
          w'\<lparr>console := console w' @ [ErrStatus e],
             status := StatusFetchFailed,
             processingStatus := None\<rparr>
      | (Inr u, w') \<Rightarrow> w')"

text \<open>
  The browser fires interval \<open>h\<close>: nothing happens unless the timer is live, and a live
  timer runs its callback.
\<close>

definition timerFires :: "runtime \<Rightarrow> nat \<Rightarrow> response \<Rightarrow> response \<Rightarrow> world \<Rightarrow> world" where
  "timerFires rt h statusResp listResp w =
     (case find (\<lambda>t. t_handle t = h) (timers w) of
        None \<Rightarrow> w
      | Some t \<Rightarrow> pollTick rt h (t_arn t) statusResp listResp w)"

text \<open>Interval \<open>h\<close> fires once for each status response of the list, in order.\<close>

fun timerFiresEach :: "runtime \<Rightarrow> nat \<Rightarrow> response list \<Rightarrow> response \<Rightarrow> world \<Rightarrow> world" where
  "timerFiresEach rt h [] listResp w = w"
| "timerFiresEach rt h (r # rs) listResp w =
     timerFiresEach rt h rs listResp (timerFires rt h r listResp w)"

subsection \<open>A new recording session: \<open>resetState\<close> and \<open>startRecording\<close> (lines 526 to 615)\<close>

definition resetState :: "world \<Rightarrow> world" where
  "resetState w =
     w\<lparr>selectedRecording := None,
       title := JStr [],
       transcript := JStr [],
       summary := JStr [],
       keywordList := JArr [],
       showAudioPlayer := False,
       isEditingBeforeSave := False,
       audioChunks := [],
       currentChunkIndex := 0,
       uploadedAudioUrl := JStr [],
       recordingDuration := ''0:00'',
       errorMessage := None,
       processingStatus := None,
       executionArn := None\<rparr>"

text \<open>
  \<open>startRecording\<close> resets the state and asks for the microphone; \<open>micGranted\<close> says
  whether \<open>getUserMedia\<close> resolved. The media recorder it then sets up is not part of the
  model. The one-second interval of line 599 takes the next timer handle; its callback
  writes \<open>recordingDuration\<close> only, and it is not entered in the timer table, which holds
  the poll timers.
\<close>

definition startRecording :: "bool \<Rightarrow> world \<Rightarrow> world" where
  "startRecording micGranted w =
     (let w1 = resetState w
      in if micGranted
         then w1\<lparr>showAudioPlayer := False, isRecording := True, status := RecordingNow,
                nextHandle := Suc (nextHandle w1)\<rparr>
         else w1\<lparr>console := console w1 @ [ErrStartRecording], status := RecordStartFailed\<rparr>)"

subsection \<open>Workflow Initiator: \<open>processAudio\<close> (lines 379 to 470)\<close>

definition truthyValue :: "json option \<Rightarrow> json option" where
  "truthyValue v = (if truthy v then v else None)"

text \<open>
  Lines 422 to 463: what follows the answer to the start request. The message of the
  error of line 425 interpolates \<open>errorData.error || 'Unknown error'\<close>; when that value
  does not convert to a string, the template throws a \<open>TypeError\<close> in place of the error
  being built.
\<close>

definition startDispatch ::
  "runtime \<Rightarrow> response \<Rightarrow> response \<Rightarrow> world \<Rightarrow> (js_error + json option) \<times> world" where
  "startDispatch rt startResp listResp w =
     (case startResp of
        Rejected \<Rightarrow> (Inl FetchRejected, w)
      | Resp st body \<Rightarrow>
          if \<not> ok st then
            (case body of
               None \<Rightarrow> (Inl SyntaxError, w)
             | Some errorData \<Rightarrow>
                 (let w1 = w\<lparr>console := console w @ [ErrApi errorData]\<rparr>
                  in case deref (Some errorData) of
                       Inl e \<Rightarrow> (Inl e, w1)
                     | Inr d \<Rightarrow>
                         (let m = orElse (field d ''error'') (JStr ''Unknown error'')
                          in if stringifies m then (Inl (ProcessingStartError st m), w1)
                             else (Inl TypeError, w1))))
          else
            (case body of
               None \<Rightarrow> (Inl SyntaxError, w)
             | Some result \<Rightarrow>
                 (case deref (Some result) of
                    Inl e \<Rightarrow> (Inl e, w)
                  | Inr r \<Rightarrow>
                      (case truthyValue (field r ''executionArn'') of
                         Some a \<Rightarrow>
                           (case startPolling a (w\<lparr>executionArn := Some a\<rparr>) of
                              (interval, w1) \<Rightarrow>
                                (Inr None,
                                 w1\<lparr>status := NoMessage, processingStatus := Some AudioProcessing\<rparr>))
                       | None \<Rightarrow>
                           if truthy (field r ''title'') then
                             (let w1 = w\<lparr>title := orElse (field r ''title'') (JStr untitled),
                                         transcript := orElse (field r ''transcript'') (JStr []),
                                         summary := orElse (field r ''summary'') (JStr []),
                                         keywordList := orElse (field r ''keywords'') (JArr []),
                                         status := ProcessingDone,
                                         processingStatus := None\<rparr>;
                                  w2 = (case truthyValue (field r ''audioUrl'') of
                                          Some u \<Rightarrow> w1\<lparr>uploadedAudioUrl := u, showAudioPlayer := True\<rparr>
                                        | None \<Rightarrow> w1);
                                  w3 = w2\<lparr>isEditingBeforeSave := True\<rparr>
                              in (Inr (Some result), fetchRecordings rt listResp w3))
                           else (Inl UnexpectedResponseShape, w)))))"

text \<open>
  The whole function. The \<open>map\<close> of lines 399 to 401 converts every key to a string once
  more; the keys \<open>uploadChunks\<close> returns have all been converted before, so the test
  never fails there.
\<close>

definition processAudio ::
  "runtime \<Rightarrow> upload_env \<Rightarrow> response \<Rightarrow> response \<Rightarrow> blob \<Rightarrow> world
     \<Rightarrow> (js_error + json option) \<times> world" where
  "processAudio rt env startResp listResp audioBlob w =
     (let w1 = w\<lparr>status := AudioProcessing\<rparr>;
          chunks = createChunks rt w1 audioBlob
      in case (case uploadChunks env chunks w1 of
                 (Inl e, w2) \<Rightarrow> (Inl e, w2)
               | (Inr chunkKeys, w2) \<Rightarrow>
                   if length chunkKeys = 0 then (Inl UploadEmptyError, w2)
                   else if \<not> list_all stringifies chunkKeys then (Inl TypeError, w2)
                   else startDispatch rt startResp listResp
                          (w2\<lparr>audioChunks := map BucketUrl chunkKeys,
                              currentChunkIndex := 0,
                              showAudioPlayer := True,
                              status := ProcessingStarting,
                              processingStatus := Some StartingUp,
                              network := network w2 @
                                [Sent (PostProcess chunkKeys), Settled startResp]\<rparr>)) of
           (Inl e, w') \<Rightarrow>
             (Inl e, w'\<lparr>console := console w' @ [ErrProcessing e],
                        status := AudioProcessingFailed e,
                        processingStatus := None\<rparr>)
         | (Inr v, w') \<Rightarrow> (Inr v, w'))"

subsection \<open>Vocabulary of the statements\<close>

text \<open>
  A status request fails when \<open>fetch\<close> rejects (a network error) or the body cannot be
  parsed; \<open>failureOf\<close> is the error the callback then catches.
\<close>

definition requestFails :: "response \<Rightarrow> bool" where
  "requestFails r = (case r of Rejected \<Rightarrow> True | Resp st body \<Rightarrow> body = None)"

definition failureOf :: "response \<Rightarrow> js_error" where
  "failureOf r = (case r of Rejected \<Rightarrow> FetchRejected | Resp st body \<Rightarrow> SyntaxError)"

text \<open>A PUT fails when \<open>fetch\<close> rejects or the status is not a success.\<close>

definition putFails :: "response \<Rightarrow> bool" where
  "putFails r = (case r of Rejected \<Rightarrow> True | Resp st body \<Rightarrow> \<not> ok st)"

text \<open>
  The network events of chunk \<open>i\<close>: its presign request with the answer, and its PUT to
  URL \<open>u\<close> with the answer.
\<close>

definition presignEvents :: "upload_env \<Rightarrow> nat \<Rightarrow> blob \<Rightarrow> net_event list" where
  "presignEvents env i chunk =
     [Sent (PostPresign (Filename (now env i) i (extensionOf chunk)) (contentTypeOf chunk)),
      Settled (presignResponse env i)]"

definition putEvents :: "upload_env \<Rightarrow> json \<Rightarrow> nat \<Rightarrow> blob \<Rightarrow> net_event list" where
  "putEvents env u i chunk =
     [Sent (PutChunk u (contentTypeOf chunk) chunk), Settled (putResponse env i)]"

fun isPut :: "net_event \<Rightarrow> bool" where
  "isPut (Sent (PutChunk u c b)) = True"
| "isPut e = False"

text \<open>
  What the caller of \<open>uploadChunks\<close> holds after \<open>await\<close>: the array the promise resolved
  to, and nothing when the promise rejected (\<open>chunkKeys\<close> of line 391 is never bound).
\<close>

definition callerKeys :: "js_error + json list \<Rightarrow> json list" where
  "callerKeys r = (case r of Inl e \<Rightarrow> [] | Inr ks \<Rightarrow> ks)"

text \<open>
  The key as the specification words it: the \<open>key\<close> field when it is there, otherwise
  the trailing path segment of the \<open>audioUrl\<close> field when that is a non-empty string.
\<close>

definition specKey :: "json \<Rightarrow> json option" where
  "specKey d =
     (if truthy (field d ''key'') then field d ''key''
      else (case field d ''audioUrl'' of
              Some (JStr s) \<Rightarrow> if s = [] then field d ''key'' else Some (JStr (lastSegment s))
            | _ \<Rightarrow> field d ''key''))"

text \<open>
  The state in which \<open>processAudio\<close> evaluates the answer to the start request, when its
  single chunk \<open>c\<close> was uploaded to URL \<open>u\<close> under key \<open>k\<close>: lines 399 to 420.
\<close>

definition afterUpload ::
  "upload_env \<Rightarrow> json \<Rightarrow> json \<Rightarrow> response \<Rightarrow> blob \<Rightarrow> world \<Rightarrow> world" where
  "afterUpload env u k startResp c w =
     w\<lparr>audioChunks := [BucketUrl k],
       currentChunkIndex := 0,
       showAudioPlayer := True,
       status := ProcessingStarting,
       processingStatus := Some StartingUp,
       network := network w @ presignEvents env 0 c @ putEvents env u 0 c @
                  [Sent (PostProcess [k]), Settled startResp]\<rparr>"

subsection \<open>Sample inputs\<close>

text \<open>
  The component as mounted: the initial values of the \<open>useState\<close> calls of lines 185 to
  231, no timer, nothing sent, nothing logged.
\<close>

definition initial :: world where
  "initial =
     \<lparr>status = NoMessage, selectedRecording = None, recordings = [],
      isEditingBeforeSave = False, title = JStr [], transcript = JStr [], summary = JStr [],
      keywordList = JArr [], recordingDuration = ''0:00'', uploadedAudioUrl = JStr [],
      audioChunks = [], currentChunkIndex = 0, executionArn = None, processingStatus = None,
      pollingInterval = None, errorMessage = None, showAudioPlayer = False,
      isRecording = False, timers = [], nextHandle = 1, network = [], console = []\<rparr>"

text \<open>
  The text \<open>{"title":"Inner","summary":"S"}\<close> and the value it parses to; a runtime whose
  \<open>JSON.parse\<close> knows this text and rejects every other, and whose sort keeps the order.
\<close>

definition nestedText :: string where
  "nestedText = ''{'' @ [CHR 0x22] @ ''title'' @ [CHR 0x22] @ '':'' @ [CHR 0x22] @ ''Inner''
     @ [CHR 0x22] @ '','' @ [CHR 0x22] @ ''summary'' @ [CHR 0x22] @ '':'' @ [CHR 0x22] @ ''S''
     @ [CHR 0x22] @ ''}''"

definition nestedValue :: json where
  "nestedValue = JObj [(''title'', JStr ''Inner''), (''summary'', JStr ''S'')]"

definition sampleRuntime :: runtime where
  "sampleRuntime =
     \<lparr>JSON_parse = (\<lambda>s. if s = nestedText then Some nestedValue else None),
      parseInt = (\<lambda>s. None),
      greaterThanZero = (\<lambda>v. case v of Some (JNum n) \<Rightarrow> 0 < n | _ \<Rightarrow> False),
      sortByDateDesc = Inr\<rparr>"

definition sampleRecording :: json where
  "sampleRecording = JObj [(''id'', JStr ''r1''), (''title'', JStr ''Memo'')]"

definition webm :: "nat \<Rightarrow> blob" where
  "webm n = \<lparr>b_type = ''audio/webm'', b_size = n, b_bytes = []\<rparr>"

text \<open>
  A backend that answers every presign request with a URL and a key (one pair for chunk 0,
  another for the later chunks), and every PUT with 200.
\<close>

definition goodPresign :: "nat \<Rightarrow> json" where
  "goodPresign i =
     JObj [(''presignedUrl'', JStr (if i = 0 then ''https://s3/put/a'' else ''https://s3/put/b'')),
           (''key'', JStr (if i = 0 then ''chunk_a.webm'' else ''chunk_b.webm''))]"

definition goodBackend :: upload_env where
  "goodBackend =
     \<lparr>now = (\<lambda>i. 1700000000000 + i),
      presignResponse = (\<lambda>i. Resp 200 (Some (goodPresign i))),
      putResponse = (\<lambda>i. Resp 200 None)\<rparr>"

text \<open>The same backend, except that the presign request of chunk 1 is answered with 500.\<close>

definition presignFailsAt1 :: upload_env where
  "presignFailsAt1 =
     goodBackend\<lparr>presignResponse := (\<lambda>i. if i = 1 then Resp 500 None
                                          else Resp 200 (Some (goodPresign i)))\<rparr>"

text \<open>The same backend, except that the PUT of chunk 1 is answered with 403.\<close>

definition putFailsAt1 :: upload_env where
  "putFailsAt1 =
     goodBackend\<lparr>putResponse := (\<lambda>i. if i = 1 then Resp 403 None else Resp 200 None)\<rparr>"

text \<open>
  Three presign answers: a URL with an \<open>audioUrl\<close> and no key, a URL alone, and a key
  alone; and the backend that gives the same presign answer \<open>d\<close> to every chunk.
\<close>

definition urlAndAudioUrl :: json where
  "urlAndAudioUrl =
     JObj [(''presignedUrl'', JStr ''https://s3/put/a''),
           (''audioUrl'', JStr ''https://bucket/audio/rec.webm'')]"

definition urlAlone :: json where
  "urlAlone = JObj [(''presignedUrl'', JStr ''https://s3/put/a'')]"

definition keyAlone :: json where
  "keyAlone = JObj [(''key'', JStr ''k.webm'')]"

definition backendAnswering :: "json \<Rightarrow> upload_env" where
  "backendAnswering d = goodBackend\<lparr>presignResponse := (\<lambda>i. Resp 200 (Some d))\<rparr>"

text \<open>
  A session that polls for execution \<open>E1\<close>: one recording is listed, and \<open>startPolling\<close>
  has been called after \<open>setExecutionArn\<close>, as line 434 and 435 do.
\<close>

definition pollingE1 :: world where
  "pollingE1 =
     snd (startPolling (JStr ''E1'')
            (initial\<lparr>recordings := [sampleRecording], executionArn := Some (JStr ''E1'')\<rparr>))"

section \<open>Properties\<close>

subsection \<open>Auxiliary facts\<close>

lemma deref_field: "field d k = Some v \<Longrightarrow> deref (Some d) = Inr d"
  by (cases d) (simp_all add: deref_def)

lemma truthy_field: "field d k = Some v \<Longrightarrow> truthy (Some d)"
  by (cases d) simp_all

lemma deref_not_null: "j \<noteq> JNull \<Longrightarrow> deref (Some j) = Inr j"
  by (cases j) (simp_all add: deref_def)

text \<open>\<open>lastSegment\<close> is the trailing path segment: it has no slash and follows the last one.\<close>

lemma lastSegment_trailing:
  "CHR ''/'' \<notin> set (lastSegment s) \<and>
   (\<exists>p. s = p @ lastSegment s \<and> (p = [] \<or> last p = CHR ''/''))"
proof -
  define t where "t = takeWhile (\<lambda>c. c \<noteq> CHR ''/'') (rev s)"
  define d where "d = dropWhile (\<lambda>c. c \<noteq> CHR ''/'') (rev s)"
  have ls: "lastSegment s = rev t"
    by (simp add: lastSegment_def t_def)
  have a: "CHR ''/'' \<notin> set (lastSegment s)"
  proof
    assume "CHR ''/'' \<in> set (lastSegment s)"
    then have "CHR ''/'' \<in> set (takeWhile (\<lambda>c. c \<noteq> CHR ''/'') (rev s))"
      by (simp add: ls t_def)
    then have "CHR ''/'' \<in> set (rev s) \<and> CHR ''/'' \<noteq> CHR ''/''"
      by (rule set_takeWhileD)
    then show False by simp
  qed
  have "rev s = t @ d"
    by (simp add: t_def d_def)
  then have "rev (rev s) = rev (t @ d)"
    by (rule arg_cong)
  then have "s = rev d @ rev t"
    by simp
  then have s: "s = rev d @ lastSegment s"
    unfolding ls .
  have e: "rev d = [] \<or> last (rev d) = CHR ''/''"
  proof (cases "d = []")
    case True
    then show ?thesis by simp
  next
    case False
    then have "\<not> (hd d \<noteq> CHR ''/'')"
      unfolding d_def by (rule hd_dropWhile)
    then show ?thesis using False by (simp add: last_rev)
  qed
  from a s e show ?thesis by blast
qed

text \<open>
  What \<open>presignExtract\<close> answers on an object whose \<open>audioUrl\<close>, where consulted, is a string.
\<close>

lemma presignExtract_cases:
  assumes "d \<noteq> JNull"
    and "truthy (field d ''key'') \<or> \<not> truthy (field d ''audioUrl'') \<or>
         (\<exists>s. field d ''audioUrl'' = Some (JStr s))"
  shows "presignExtract d =
      (if \<not> truthy (field d ''presignedUrl'') \<or> \<not> truthy (specKey d) then Inl PresignResponseError
       else (case (field d ''presignedUrl'', specKey d) of
               (Some u, Some k) \<Rightarrow> Inr (u, k)
             | _ \<Rightarrow> Inl PresignResponseError))"
proof -
  have dr: "deref (Some d) = Inr d"
    using assms(1) by (rule deref_not_null)
  show ?thesis
  proof (cases "truthy (field d ''key'')")
    case True
    then show ?thesis by (simp add: presignExtract_def dr specKey_def Let_def)
  next
    case nokey: False
    show ?thesis
    proof (cases "truthy (field d ''audioUrl'')")
      case False
      then have "specKey d = field d ''key''"
        using nokey by (auto simp: specKey_def split: option.splits json.splits)
      then show ?thesis using nokey False by (simp add: presignExtract_def dr Let_def)
    next
      case True
      with nokey assms(2) obtain s where s: "field d ''audioUrl'' = Some (JStr s)" by auto
      with True have "s \<noteq> []" by simp
      then have "specKey d = Some (JStr (lastSegment s))"
        using nokey s by (simp add: specKey_def)
      then show ?thesis using nokey True s by (simp add: presignExtract_def dr Let_def)
    qed
  qed
qed

text \<open>
  The loop over a run of chunks that all upload: it reaches the rest of the chunks with
  their keys appended in order, and the network has seen, chunk after chunk, the presign
  exchange followed by the PUT exchange.
\<close>

lemma upload_good_prefix:
  assumes "\<forall>j<length cs1.
      presignResponse env (i + j) = Resp (pst (i + j)) (Some (pd (i + j))) \<and> ok (pst (i + j)) \<and>
      presignExtract (pd (i + j)) = Inr (u (i + j), k (i + j)) \<and>
      stringifies (u (i + j)) \<and> stringifies (k (i + j)) \<and>
      putResponse env (i + j) = Resp (ust (i + j)) (ub (i + j)) \<and> ok (ust (i + j))"
  shows "\<exists>s. uploadLoop env n i (cs1 @ cs2) acc w =
      uploadLoop env n (i + length cs1) cs2 (acc @ map k [i..<i + length cs1])
        (w\<lparr>status := s, network := network w @
            concat (map (\<lambda>(j, c). presignEvents env j c @ putEvents env (u j) j c)
                      (zip [i..<i + length cs1] cs1))\<rparr>)"
  using assms
proof (induction cs1 arbitrary: i acc w)
  case Nil
  show ?case by (rule exI[of _ "status w"]) simp
next
  case (Cons c cs1)
  have g: "presignResponse env i = Resp (pst i) (Some (pd i))" "ok (pst i)"
    "presignExtract (pd i) = Inr (u i, k i)" "stringifies (u i)" "stringifies (k i)"
    "putResponse env i = Resp (ust i) (ub i)" "ok (ust i)"
    using Cons.prems[rule_format, of 0] by simp_all
  let ?w1 = "w\<lparr>status := UploadingChunk (i + 1) n,
        network := network w @ presignEvents env i c @ putEvents env (u i) i c\<rparr>"
  have one: "uploadOne env n i c w = (Inr (k i), ?w1)"
    using g by (simp add: uploadOne_def Let_def presignEvents_def putEvents_def)
  have rest: "\<forall>j<length cs1.
      presignResponse env (Suc i + j) = Resp (pst (Suc i + j)) (Some (pd (Suc i + j))) \<and>
      ok (pst (Suc i + j)) \<and>
      presignExtract (pd (Suc i + j)) = Inr (u (Suc i + j), k (Suc i + j)) \<and>
      stringifies (u (Suc i + j)) \<and> stringifies (k (Suc i + j)) \<and>
      putResponse env (Suc i + j) = Resp (ust (Suc i + j)) (ub (Suc i + j)) \<and>
      ok (ust (Suc i + j))"
    using Cons.prems by (metis Suc_less_eq add_Suc_shift length_Cons)
  from Cons.IH[OF rest, of "acc @ [k i]" ?w1] obtain s where
    s: "uploadLoop env n (Suc i) (cs1 @ cs2) (acc @ [k i]) ?w1 =
      uploadLoop env n (Suc i + length cs1) cs2 ((acc @ [k i]) @ map k [Suc i..<Suc i + length cs1])
        (?w1\<lparr>status := s, network := network ?w1 @
            concat (map (\<lambda>(j, c). presignEvents env j c @ putEvents env (u j) j c)
                      (zip [Suc i..<Suc i + length cs1] cs1))\<rparr>)"
    by blast
  have upt: "[i..<Suc (i + length cs1)] = i # [Suc i..<Suc (i + length cs1)]"
    by (subst upt_rec) simp
  show ?case
    using s by (intro exI[of _ s]) (simp add: one upt del: upt_Suc)
qed

lemma count_puts:
  "length (filter isPut
     (concat (map (\<lambda>(j, c). presignEvents env j c @ putEvents env (u j) j c) ps))) = length ps"
  by (induction ps) (auto simp: presignEvents_def putEvents_def)

text \<open>\<open>processAudio\<close> up to the start request, when its one chunk uploads.\<close>

lemma upload_single:
  assumes "presignResponse env 0 = Resp pst (Some pd)" and "ok pst"
    and "presignExtract pd = Inr (u, k)" and "stringifies u" and "stringifies k"
    and "putResponse env 0 = Resp ust ub" and "ok ust"
  shows "uploadChunks env [c] w =
           (Inr [k], w\<lparr>status := UploadingChunk 1 1,
                       network := network w @ presignEvents env 0 c @ putEvents env u 0 c\<rparr>)"
  using assms
  by (simp add: uploadChunks_def uploadOne_def Let_def presignEvents_def putEvents_def)

lemma processAudio_dispatch:
  assumes "presignResponse env 0 = Resp pst (Some pd)" and "ok pst"
    and "presignExtract pd = Inr (u, k)" and "stringifies u" and "stringifies k"
    and "putResponse env 0 = Resp ust ub" and "ok ust"
  shows "processAudio rt env startResp listResp c w =
     (case startDispatch rt startResp listResp (afterUpload env u k startResp c w) of
        (Inl e, w') \<Rightarrow>
             (Inl e, w'\<lparr>console := console w' @ [ErrProcessing e],
                        status := AudioProcessingFailed e,
                        processingStatus := None\<rparr>)
      | (Inr v, w') \<Rightarrow> (Inr v, w'))"
proof -
  have ch: "createChunks rt (w\<lparr>status := AudioProcessing\<rparr>) c = [c]"
    by (simp add: createChunks_def Let_def)
  show ?thesis
    unfolding processAudio_def Let_def ch upload_single[OF assms]
    using assms(5) by (simp add: afterUpload_def)
qed

text \<open>The four ways \<open>startDispatch\<close> treats a response whose body is JSON and not \<open>null\<close>.\<close>

lemma dispatch_error:
  assumes "\<not> ok st" and "body \<noteq> JNull"
  shows "startDispatch rt (Resp st (Some body)) listResp w =
     (Inl (if stringifies (orElse (field body ''error'') (JStr ''Unknown error''))
           then ProcessingStartError st (orElse (field body ''error'') (JStr ''Unknown error''))
           else TypeError),
      w\<lparr>console := console w @ [ErrApi body]\<rparr>)"
  using assms deref_not_null[OF assms(2)] by (simp add: startDispatch_def Let_def)

lemma dispatch_async:
  assumes "ok st" and "body \<noteq> JNull"
    and "field body ''executionArn'' = Some a" and "truthy (Some a)"
  shows "startDispatch rt (Resp st (Some body)) listResp w =
     (Inr None,
      (setPollingInterval (Some (nextHandle w))
         (w\<lparr>executionArn := Some a,
            timers := timers w @ [\<lparr>t_handle = nextHandle w, t_arn = a, t_period = 3000\<rparr>],
            nextHandle := Suc (nextHandle w)\<rparr>))
        \<lparr>status := NoMessage, processingStatus := Some AudioProcessing\<rparr>)"
  using assms deref_not_null[OF assms(2)]
  by (simp add: startDispatch_def Let_def truthyValue_def startPolling_def setInterval_def)

lemma dispatch_sync:
  assumes "ok st" and "body \<noteq> JNull"
    and "\<not> truthy (field body ''executionArn'')" and "truthy (field body ''title'')"
  shows "startDispatch rt (Resp st (Some body)) listResp w =
     (Inr (Some body), fetchRecordings rt listResp
        ((case truthyValue (field body ''audioUrl'') of
            Some u \<Rightarrow> w\<lparr>title := orElse (field body ''title'') (JStr untitled),
                        transcript := orElse (field body ''transcript'') (JStr []),
                        summary := orElse (field body ''summary'') (JStr []),
                        keywordList := orElse (field body ''keywords'') (JArr []),
                        status := ProcessingDone,
                        processingStatus := None,
                        uploadedAudioUrl := u,
                        showAudioPlayer := True\<rparr>
          | None \<Rightarrow> w\<lparr>title := orElse (field body ''title'') (JStr untitled),
                      transcript := orElse (field body ''transcript'') (JStr []),
                      summary := orElse (field body ''summary'') (JStr []),
                      keywordList := orElse (field body ''keywords'') (JArr []),
                      status := ProcessingDone,
                      processingStatus := None\<rparr>)\<lparr>isEditingBeforeSave := True\<rparr>))"
  using assms deref_not_null[OF assms(2)]
  by (simp add: startDispatch_def Let_def truthyValue_def)

lemma dispatch_other:
  assumes "ok st" and "body \<noteq> JNull"
    and "\<not> truthy (field body ''executionArn'')" and "\<not> truthy (field body ''title'')"
  shows "startDispatch rt (Resp st (Some body)) listResp w = (Inl UnexpectedResponseShape, w)"
  using assms deref_not_null[OF assms(2)]
  by (simp add: startDispatch_def Let_def truthyValue_def)

text \<open>\<open>fetchRecordings\<close> writes the recordings, the status and the network only.\<close>

lemma fetchRecordings_frame:
  "title (fetchRecordings rt r w) = title w"
  "transcript (fetchRecordings rt r w) = transcript w"
  "summary (fetchRecordings rt r w) = summary w"
  "keywordList (fetchRecordings rt r w) = keywordList w"
  "isEditingBeforeSave (fetchRecordings rt r w) = isEditingBeforeSave w"
  "timers (fetchRecordings rt r w) = timers w"
  "pollingInterval (fetchRecordings rt r w) = pollingInterval w"
  "executionArn (fetchRecordings rt r w) = executionArn w"
  "processingStatus (fetchRecordings rt r w) = processingStatus w"
  by (simp_all add: fetchRecordings_def Let_def split: sum.splits)

lemma decodeNested_string:
  assumes "field r ''result'' = Some (JStr s)"
  shows "decodeNested rt (Some r) w =
           (case JSON_parse rt s of
              Some v \<Rightarrow> (Some v, w)
            | None \<Rightarrow> (Some r, w\<lparr>console := console w @ [ErrResultDecode]\<rparr>))"
  using assms truthy_field[OF assms] by (simp add: decodeNested_def)

lemma decodeNested_plain:
  assumes "\<And>s. field r ''result'' \<noteq> Some (JStr s)"
  shows "decodeNested rt (Some r) w = (Some r, w)"
proof (cases "field r ''result''")
  case None
  then show ?thesis by (simp add: decodeNested_def)
next
  case (Some x)
  show ?thesis
  proof (cases x)
    case (JStr s)
    with Some assms[of s] show ?thesis by simp
  qed (use Some in \<open>simp_all add: decodeNested_def\<close>)
qed

text \<open>A tick whose request fails, and any number of them in a row, on a live timer.\<close>

lemma tick_fail:
  assumes "requestFails r" and "find (\<lambda>t. t_handle t = h) (timers w) = Some t"
    and "stringifies (t_arn t)"
  shows "timerFires rt h r listResp w =
           w\<lparr>status := StatusFetchFailed, processingStatus := None,
             network := network w @ [Sent (GetStatus (t_arn t)), Settled r],
             console := console w @ [ErrStatus (failureOf r)]\<rparr>"
  using assms
  by (simp add: timerFires_def pollTick_def pollBody_def requestFails_def failureOf_def
      split: response.splits)

lemma ticks_fail:
  assumes "list_all requestFails rs" and "find (\<lambda>t. t_handle t = h) (timers w) = Some t"
    and "stringifies (t_arn t)"
  shows "timerFiresEach rt h rs listResp w =
     (if rs = [] then w else
       w\<lparr>status := StatusFetchFailed, processingStatus := None,
          network := network w @ concat (map (\<lambda>r. [Sent (GetStatus (t_arn t)), Settled r]) rs),
          console := console w @ map (\<lambda>r. ErrStatus (failureOf r)) rs\<rparr>)"
  using assms
proof (induction rs arbitrary: w)
  case Nil
  then show ?case by simp
next
  case (Cons r rs)
  let ?w1 = "timerFires rt h r listResp w"
  have w1: "?w1 = w\<lparr>status := StatusFetchFailed, processingStatus := None,
             network := network w @ [Sent (GetStatus (t_arn t)), Settled r],
             console := console w @ [ErrStatus (failureOf r)]\<rparr>"
    using Cons.prems by (simp add: tick_fail)
  have live: "find (\<lambda>t. t_handle t = h) (timers ?w1) = Some t"
    using Cons.prems(2) by (simp add: w1)
  have "timerFiresEach rt h rs listResp ?w1 = (if rs = [] then ?w1 else
       ?w1\<lparr>status := StatusFetchFailed, processingStatus := None,
          network := network ?w1 @ concat (map (\<lambda>r. [Sent (GetStatus (t_arn t)), Settled r]) rs),
          console := console ?w1 @ map (\<lambda>r. ErrStatus (failureOf r)) rs\<rparr>)"
    using Cons.IH[OF _ live Cons.prems(3)] Cons.prems(1) by simp
  then show ?case by (simp add: w1)
qed

subsection \<open>Chunker\<close>

text \<open>
  Claim C9. For every audio blob the Chunker returns a sequence of exactly one element,
  the blob it was given: directly when the size is at or under the threshold, and also
  when the size exceeds it (nothing is split in the browser).
\<close>

theorem createChunks_returns_input:
  "createChunks rt w audioBlob = [audioBlob] \<and> length (createChunks rt w audioBlob) = 1"
  by (simp add: createChunks_def Let_def)

text \<open>A blob under the threshold and one over it.\<close>

theorem createChunks_returns_input_witness:
  "createChunks sampleRuntime initial (webm 1000) = [webm 1000] \<and>
   createChunks sampleRuntime initial (webm 200000) = [webm 200000] \<and>
   of_nat (b_size (webm 1000)) \<le> MAX_CHUNK_SIZE \<and>
   MAX_CHUNK_SIZE < of_nat (b_size (webm 200000))"
  using createChunks_returns_input[of sampleRuntime initial "webm 1000"]
    createChunks_returns_input[of sampleRuntime initial "webm 200000"]
  by (simp add: webm_def MAX_CHUNK_SIZE_def)

subsection \<open>Uploader\<close>

text \<open>
  Claim C4, as the code has it. Let the presign request of chunk \<open>i\<close> be answered with a
  success status and a body \<open>d\<close> that is an object (whose \<open>audioUrl\<close>, where it is
  consulted, is a string). The key is the \<open>key\<close> field or else the trailing path segment
  of \<open>audioUrl\<close>. The iteration fails with the presign-response error exactly when the
  presigned URL is missing or no key is present or derivable: one of the two missing is
  enough. In that case the uploader as a whole fails with that error, whatever chunks
  follow; the response and the failure of the chunk are logged, and the presign exchange
  of chunk \<open>i\<close> is the last thing on the network, so no PUT is sent for it. Otherwise the
  uploader goes on with that URL and that key: when both convert to strings, the chunk is
  PUT to that URL, and when the PUT succeeds the iteration yields that key.
\<close>

theorem uploader_presign_failure_condition:
  assumes pr: "presignResponse env i = Resp st (Some d)" and st: "ok st" and d: "d \<noteq> JNull"
    and au: "truthy (field d ''key'') \<or> \<not> truthy (field d ''audioUrl'') \<or>
             (\<exists>s. field d ''audioUrl'' = Some (JStr s))"
  shows "((fst (uploadOne env n i c w) = Inl PresignResponseError) =
            (\<not> truthy (field d ''presignedUrl'') \<or> \<not> truthy (specKey d))) \<and>
         (\<not> truthy (field d ''presignedUrl'') \<or> \<not> truthy (specKey d) \<longrightarrow>
            fst (uploadLoop env n i (c # rest) acc w) = Inl PresignResponseError \<and>
            network (snd (uploadLoop env n i (c # rest) acc w)) =
              network w @ presignEvents env i c \<and>
            console (snd (uploadLoop env n i (c # rest) acc w)) =
              console w @ [ErrInvalidPresign d, ErrChunkUpload i PresignResponseError]) \<and>
         (truthy (field d ''presignedUrl'') \<and> truthy (specKey d) \<longrightarrow>
            (\<exists>u k. field d ''presignedUrl'' = Some u \<and> specKey d = Some k \<and>
                   (stringifies u \<and> stringifies k \<longrightarrow>
                      network (snd (uploadOne env n i c w)) =
                        network w @ presignEvents env i c @ putEvents env u i c \<and>
                      (\<not> putFails (putResponse env i) \<longrightarrow>
                         fst (uploadOne env n i c w) = Inr k)))) \<and>
         (\<forall>s. \<not> truthy (field d ''key'') \<and> field d ''audioUrl'' = Some (JStr s) \<and> s \<noteq> [] \<longrightarrow>
            specKey d = Some (JStr (lastSegment s)) \<and> CHR ''/'' \<notin> set (lastSegment s) \<and>
            (\<exists>p. s = p @ lastSegment s \<and> (p = [] \<or> last p = CHR ''/'')))"
proof -
  let ?bad = "\<not> truthy (field d ''presignedUrl'') \<or> \<not> truthy (specKey d)"
  note ex = presignExtract_cases[OF d au]
  have failing: "uploadOne env n i c w =
        (Inl PresignResponseError,
         w\<lparr>status := UploadingChunk (i + 1) n,
           network := network w @ presignEvents env i c,
           console := console w @ [ErrInvalidPresign d]\<rparr>)" if "?bad"
  proof -
    have "presignExtract d = Inl PresignResponseError" using that unfolding ex by simp
    then show ?thesis using pr st by (simp add: uploadOne_def Let_def presignEvents_def)
  qed
  have going: "\<exists>u k. field d ''presignedUrl'' = Some u \<and> specKey d = Some k \<and>
                      presignExtract d = Inr (u, k)" if "\<not> ?bad"
    using that unfolding ex by (cases "field d ''presignedUrl''"; cases "specKey d") auto
  have 1: "(fst (uploadOne env n i c w) = Inl PresignResponseError) = ?bad"
  proof (cases ?bad)
    case True
    then show ?thesis using failing by simp
  next
    case False
    from going[OF False] obtain u k where "presignExtract d = Inr (u, k)" by blast
    then have "fst (uploadOne env n i c w) \<noteq> Inl PresignResponseError"
      using pr st
      by (cases "putResponse env i") (simp_all add: uploadOne_def Let_def)
    then show ?thesis using False by simp
  qed
  have 2: "?bad \<longrightarrow>
            fst (uploadLoop env n i (c # rest) acc w) = Inl PresignResponseError \<and>
            network (snd (uploadLoop env n i (c # rest) acc w)) =
              network w @ presignEvents env i c \<and>
            console (snd (uploadLoop env n i (c # rest) acc w)) =
              console w @ [ErrInvalidPresign d, ErrChunkUpload i PresignResponseError]"
  proof
    assume ?bad
    from failing[OF this] show "fst (uploadLoop env n i (c # rest) acc w) = Inl PresignResponseError \<and>
            network (snd (uploadLoop env n i (c # rest) acc w)) =
              network w @ presignEvents env i c \<and>
            console (snd (uploadLoop env n i (c # rest) acc w)) =
              console w @ [ErrInvalidPresign d, ErrChunkUpload i PresignResponseError]"
      by simp
  qed
  have 3: "truthy (field d ''presignedUrl'') \<and> truthy (specKey d) \<longrightarrow>
            (\<exists>u k. field d ''presignedUrl'' = Some u \<and> specKey d = Some k \<and>
                   (stringifies u \<and> stringifies k \<longrightarrow>
                      network (snd (uploadOne env n i c w)) =
                        network w @ presignEvents env i c @ putEvents env u i c \<and>
                      (\<not> putFails (putResponse env i) \<longrightarrow>
                         fst (uploadOne env n i c w) = Inr k)))"
  proof
    assume "truthy (field d ''presignedUrl'') \<and> truthy (specKey d)"
    then have "\<not> ?bad" by simp
    from going[OF this] obtain u k where u: "field d ''presignedUrl'' = Some u"
      and k: "specKey d = Some k" and uk: "presignExtract d = Inr (u, k)"
      by blast
    have "network (snd (uploadOne env n i c w)) =
            network w @ presignEvents env i c @ putEvents env u i c \<and>
          (\<not> putFails (putResponse env i) \<longrightarrow> fst (uploadOne env n i c w) = Inr k)"
      if "stringifies u \<and> stringifies k"
      using that uk pr st
      by (cases "putResponse env i")
         (simp_all add: uploadOne_def Let_def presignEvents_def putEvents_def putFails_def)
    with u k show "\<exists>u k. field d ''presignedUrl'' = Some u \<and> specKey d = Some k \<and>
                   (stringifies u \<and> stringifies k \<longrightarrow>
                      network (snd (uploadOne env n i c w)) =
                        network w @ presignEvents env i c @ putEvents env u i c \<and>
                      (\<not> putFails (putResponse env i) \<longrightarrow>
                         fst (uploadOne env n i c w) = Inr k))"
      by blast
  qed
  have 4: "\<forall>s. \<not> truthy (field d ''key'') \<and> field d ''audioUrl'' = Some (JStr s) \<and> s \<noteq> [] \<longrightarrow>
            specKey d = Some (JStr (lastSegment s)) \<and> CHR ''/'' \<notin> set (lastSegment s) \<and>
            (\<exists>p. s = p @ lastSegment s \<and> (p = [] \<or> last p = CHR ''/''))"
    using lastSegment_trailing by (simp add: specKey_def)
  show ?thesis by (rule conjI[OF 1 conjI[OF 2 conjI[OF 3 4]]])
qed

text \<open>
  A chunk whose presign answer has a presigned URL and an \<open>audioUrl\<close> is PUT to that URL
  and stored under the last path segment; against a backend whose presign answer has a
  key and no presigned URL, the uploader fails after the presign exchange.
\<close>

theorem uploader_presign_failure_condition_witness:
  "fst (uploadOne (backendAnswering urlAndAudioUrl) 1 0 (webm 10) initial) = Inr (JStr ''rec.webm'') \<and>
   network (snd (uploadOne (backendAnswering urlAndAudioUrl) 1 0 (webm 10) initial)) =
     presignEvents (backendAnswering urlAndAudioUrl) 0 (webm 10) @
     putEvents (backendAnswering urlAndAudioUrl) (JStr ''https://s3/put/a'') 0 (webm 10) \<and>
   fst (uploadLoop (backendAnswering keyAlone) 2 0 [webm 10, webm 20] [] initial) =
     Inl PresignResponseError \<and>
   network (snd (uploadLoop (backendAnswering keyAlone) 2 0 [webm 10, webm 20] [] initial)) =
     presignEvents (backendAnswering keyAlone) 0 (webm 10) \<and>
   console (snd (uploadLoop (backendAnswering keyAlone) 2 0 [webm 10, webm 20] [] initial)) =
     [ErrInvalidPresign keyAlone, ErrChunkUpload 0 PresignResponseError]"
proof -
  let ?ea = "backendAnswering urlAndAudioUrl"
  let ?eb = "backendAnswering keyAlone"
  have ka: "specKey urlAndAudioUrl = Some (JStr ''rec.webm'')"
    by (simp add: urlAndAudioUrl_def specKey_def lastSegment_def)
  have ua: "field urlAndAudioUrl ''presignedUrl'' = Some (JStr ''https://s3/put/a'')"
    by (simp add: urlAndAudioUrl_def)
  have pa: "presignResponse ?ea 0 = Resp 200 (Some urlAndAudioUrl)"
    and pb: "presignResponse ?eb 0 = Resp 200 (Some keyAlone)"
    by (simp_all add: backendAnswering_def goodBackend_def)
  have ok: "ok 200" by (simp add: ok_def)
  have a1: "urlAndAudioUrl \<noteq> JNull" and b1: "keyAlone \<noteq> JNull"
    by (simp_all add: urlAndAudioUrl_def keyAlone_def)
  have a2: "truthy (field urlAndAudioUrl ''key'') \<or> \<not> truthy (field urlAndAudioUrl ''audioUrl'') \<or>
            (\<exists>s. field urlAndAudioUrl ''audioUrl'' = Some (JStr s))"
    by (simp add: urlAndAudioUrl_def)
  have b2: "truthy (field keyAlone ''key'') \<or> \<not> truthy (field keyAlone ''audioUrl'') \<or>
            (\<exists>s. field keyAlone ''audioUrl'' = Some (JStr s))"
    by (simp add: keyAlone_def)
  have np: "\<not> putFails (putResponse ?ea 0)"
    by (simp add: backendAnswering_def goodBackend_def putFails_def ok_def)
  have n: "network initial = []" and c: "console initial = []" by (simp_all add: initial_def)
  have "truthy (field urlAndAudioUrl ''presignedUrl'') \<and> truthy (specKey urlAndAudioUrl) \<longrightarrow>
          (\<exists>u k. field urlAndAudioUrl ''presignedUrl'' = Some u \<and> specKey urlAndAudioUrl = Some k \<and>
                 (stringifies u \<and> stringifies k \<longrightarrow>
                    network (snd (uploadOne ?ea 1 0 (webm 10) initial)) =
                      network initial @ presignEvents ?ea 0 (webm 10) @ putEvents ?ea u 0 (webm 10) \<and>
                    (\<not> putFails (putResponse ?ea 0) \<longrightarrow>
                       fst (uploadOne ?ea 1 0 (webm 10) initial) = Inr k)))"
    by (rule conjunct1[OF conjunct2[OF conjunct2[OF
          uploader_presign_failure_condition[OF pa ok a1 a2]]]])
  moreover have "truthy (field urlAndAudioUrl ''presignedUrl'') \<and> truthy (specKey urlAndAudioUrl)"
    by (simp add: ka ua)
  ultimately obtain u k where u: "field urlAndAudioUrl ''presignedUrl'' = Some u"
    and k: "specKey urlAndAudioUrl = Some k"
    and uk: "stringifies u \<and> stringifies k \<longrightarrow>
                    network (snd (uploadOne ?ea 1 0 (webm 10) initial)) =
                      network initial @ presignEvents ?ea 0 (webm 10) @ putEvents ?ea u 0 (webm 10) \<and>
                    (\<not> putFails (putResponse ?ea 0) \<longrightarrow>
                       fst (uploadOne ?ea 1 0 (webm 10) initial) = Inr k)"
    by blast
  have u': "u = JStr ''https://s3/put/a''" using u ua by simp
  have k': "k = JStr ''rec.webm''" using k ka by simp
  have 1: "fst (uploadOne ?ea 1 0 (webm 10) initial) = Inr (JStr ''rec.webm'') \<and>
           network (snd (uploadOne ?ea 1 0 (webm 10) initial)) =
             presignEvents ?ea 0 (webm 10) @ putEvents ?ea (JStr ''https://s3/put/a'') 0 (webm 10)"
    using uk np unfolding u' k' n by simp
  have "\<not> truthy (field keyAlone ''presignedUrl'') \<or> \<not> truthy (specKey keyAlone) \<longrightarrow>
          fst (uploadLoop ?eb 2 0 (webm 10 # [webm 20]) [] initial) = Inl PresignResponseError \<and>
          network (snd (uploadLoop ?eb 2 0 (webm 10 # [webm 20]) [] initial)) =
            network initial @ presignEvents ?eb 0 (webm 10) \<and>
          console (snd (uploadLoop ?eb 2 0 (webm 10 # [webm 20]) [] initial)) =
            console initial @ [ErrInvalidPresign keyAlone, ErrChunkUpload 0 PresignResponseError]"
    by (rule conjunct1[OF conjunct2[OF uploader_presign_failure_condition[OF pb ok b1 b2]]])
  moreover have "\<not> truthy (field keyAlone ''presignedUrl'')" by (simp add: keyAlone_def)
  ultimately have 2: "fst (uploadLoop ?eb 2 0 [webm 10, webm 20] [] initial) = Inl PresignResponseError \<and>
          network (snd (uploadLoop ?eb 2 0 [webm 10, webm 20] [] initial)) =
            presignEvents ?eb 0 (webm 10) \<and>
          console (snd (uploadLoop ?eb 2 0 [webm 10, webm 20] [] initial)) =
            [ErrInvalidPresign keyAlone, ErrChunkUpload 0 PresignResponseError]"
    unfolding n c by simp
  show ?thesis using 1 2 by simp
qed

text \<open>
  Against claim C4 as stated: the presign answer carries the presigned URL, but neither a
  key nor an \<open>audioUrl\<close>. The uploader fails with the presign-response error although one
  of the two is present, and the chunk is never PUT.
\<close>

theorem uploader_url_alone_fails:
  "truthy (field urlAlone ''presignedUrl'') \<and>
   fst (uploadChunks (backendAnswering urlAlone) [webm 10] initial) = Inl PresignResponseError \<and>
   filter isPut (network (snd (uploadChunks (backendAnswering urlAlone) [webm 10] initial))) = []"
  by (simp add: uploadChunks_def uploadOne_def backendAnswering_def goodBackend_def urlAlone_def
      presignExtract_def deref_def ok_def initial_def Let_def)

text \<open>
  Claim C6. For every sequence of N chunks, when every presign request succeeds with a
  usable URL and key (both of which convert to strings, as the strings of a presign
  service do) and every PUT succeeds, the uploader returns the N keys in the order of the
  chunks; the network sees, chunk by chunk and in the order of the chunks, the presign
  request, its answer, the PUT and its answer, so that a PUT is sent only after the answer
  to the previous one; and exactly N PUTs are sent.
\<close>

theorem upload_all_succeed_sequential:
  assumes "\<forall>i<length chunks.
      presignResponse env i = Resp (pst i) (Some (pd i)) \<and> ok (pst i) \<and>
      presignExtract (pd i) = Inr (u i, k i) \<and>
      stringifies (u i) \<and> stringifies (k i) \<and>
      putResponse env i = Resp (ust i) (ub i) \<and> ok (ust i)"
  shows "fst (uploadChunks env chunks w) = Inr (map k [0..<length chunks]) \<and>
         network (snd (uploadChunks env chunks w)) =
           network w @ concat (map (\<lambda>(i, c). presignEvents env i c @ putEvents env (u i) i c)
                                 (zip [0..<length chunks] chunks)) \<and>
         length (filter isPut (drop (length (network w))
                                 (network (snd (uploadChunks env chunks w)))))
           = length chunks"
proof -
  from upload_good_prefix[of chunks env 0 pst pd u k ust ub n "[]" "[]" w for n] assms
  obtain s where s: "uploadLoop env (length chunks) 0 (chunks @ []) [] w =
      uploadLoop env (length chunks) (0 + length chunks) [] ([] @ map k [0..<0 + length chunks])
        (w\<lparr>status := s, network := network w @
            concat (map (\<lambda>(j, c). presignEvents env j c @ putEvents env (u j) j c)
                      (zip [0..<0 + length chunks] chunks))\<rparr>)"
    by auto
  show ?thesis
    using s by (simp add: uploadChunks_def count_puts)
qed

text \<open>Two chunks against the backend that always succeeds.\<close>

theorem upload_all_succeed_sequential_witness:
  "fst (uploadChunks goodBackend [webm 10, webm 20] initial) =
     Inr [JStr ''chunk_a.webm'', JStr ''chunk_b.webm''] \<and>
   network (snd (uploadChunks goodBackend [webm 10, webm 20] initial)) =
     presignEvents goodBackend 0 (webm 10) @
     putEvents goodBackend (JStr ''https://s3/put/a'') 0 (webm 10) @
     presignEvents goodBackend 1 (webm 20) @
     putEvents goodBackend (JStr ''https://s3/put/b'') 1 (webm 20) \<and>
   length (filter isPut (network (snd (uploadChunks goodBackend [webm 10, webm 20] initial)))) = 2"
proof -
  have g: "\<forall>i<length [webm 10, webm 20].
       presignResponse goodBackend i = Resp 200 (Some (goodPresign i)) \<and> ok 200 \<and>
       presignExtract (goodPresign i) =
         Inr (JStr (if i = 0 then ''https://s3/put/a'' else ''https://s3/put/b''),
              JStr (if i = 0 then ''chunk_a.webm'' else ''chunk_b.webm'')) \<and>
       stringifies (JStr (if i = 0 then ''https://s3/put/a'' else ''https://s3/put/b'')) \<and>
       stringifies (JStr (if i = 0 then ''chunk_a.webm'' else ''chunk_b.webm'')) \<and>
       putResponse goodBackend i = Resp 200 None \<and> ok 200"
    by (simp add: goodBackend_def goodPresign_def presignExtract_def deref_def ok_def Let_def)
  have n: "network initial = []" by (simp add: initial_def)
  have z: "[0..<length [webm 10, webm 20]] = [0, 1]" by (simp add: upt_rec)
  show ?thesis
    using upload_all_succeed_sequential[of "[webm 10, webm 20]" goodBackend "\<lambda>i. 200" goodPresign
        "\<lambda>i. JStr (if i = 0 then ''https://s3/put/a'' else ''https://s3/put/b'')"
        "\<lambda>i. JStr (if i = 0 then ''chunk_a.webm'' else ''chunk_b.webm'')"
        "\<lambda>i. 200" "\<lambda>i. None" initial, OF g]
    unfolding z n by (simp add: presignEvents_def putEvents_def)
qed

text \<open>
  Claim C3, as the code has it. Let chunk \<open>k\<close> be the first that fails, either because its
  presign request is answered with a non-success status, or because its presign succeeds
  and its PUT fails (the URLs and keys of the presign answers being values that convert
  to strings). Then the uploader raises (the presign-request error with the status, or
  the chunk-upload error with chunk number and status, or the rejection of the PUT); the
  network has seen the complete exchanges of chunks \<open>0..k-1\<close>, then the presign exchange
  of chunk \<open>k\<close>, then the PUT of chunk \<open>k\<close> only if its presign succeeded, and nothing after
  that: no request for a later chunk, no retry, and no request that would undo an upload.
  The raised error carries no keys, so the caller of \<open>uploadChunks\<close> receives none of the
  keys of the chunks that were uploaded.
\<close>

theorem upload_failure_aborts_without_keys:
  assumes k: "k < length chunks"
    and good: "\<forall>i<k.
      presignResponse env i = Resp (pst i) (Some (pd i)) \<and> ok (pst i) \<and>
      presignExtract (pd i) = Inr (u i, key i) \<and>
      stringifies (u i) \<and> stringifies (key i) \<and>
      putResponse env i = Resp (ust i) (ub i) \<and> ok (ust i)"
    and pk: "presignResponse env k = Resp st body"
    and bad: "\<not> ok st \<or>
              (body = Some d \<and> presignExtract d = Inr (uk, kk) \<and>
               stringifies uk \<and> stringifies kk \<and> putFails (putResponse env k))"
  shows "fst (uploadChunks env chunks w) =
           Inl (if \<not> ok st then PresignRequestError st
                else case putResponse env k of
                       Rejected \<Rightarrow> FetchRejected
                     | Resp st' b \<Rightarrow> ChunkUploadError (k + 1) st') \<and>
         callerKeys (fst (uploadChunks env chunks w)) = [] \<and>
         network (snd (uploadChunks env chunks w)) =
           network w @
           concat (map (\<lambda>(i, c). presignEvents env i c @ putEvents env (u i) i c)
                     (zip [0..<k] (take k chunks))) @
           presignEvents env k (chunks ! k) @
           (if ok st then putEvents env uk k (chunks ! k) else [])"
proof -
  let ?c = "chunks ! k"
  let ?n = "length chunks"
  have split: "chunks = take k chunks @ ?c # drop (Suc k) chunks"
    using k by (simp add: id_take_nth_drop)
  have len: "length (take k chunks) = k" using k by simp
  have good': "\<forall>j<length (take k chunks).
      presignResponse env (0 + j) = Resp (pst (0 + j)) (Some (pd (0 + j))) \<and> ok (pst (0 + j)) \<and>
      presignExtract (pd (0 + j)) = Inr (u (0 + j), key (0 + j)) \<and>
      stringifies (u (0 + j)) \<and> stringifies (key (0 + j)) \<and>
      putResponse env (0 + j) = Resp (ust (0 + j)) (ub (0 + j)) \<and> ok (ust (0 + j))"
    using good len by simp
  from upload_good_prefix[OF good', of ?n "?c # drop (Suc k) chunks" "[]" w]
  obtain s where s: "uploadLoop env ?n 0 (take k chunks @ ?c # drop (Suc k) chunks) [] w =
      uploadLoop env ?n k (?c # drop (Suc k) chunks) (map key [0..<k])
        (w\<lparr>status := s, network := network w @
            concat (map (\<lambda>(j, c). presignEvents env j c @ putEvents env (u j) j c)
                      (zip [0..<k] (take k chunks)))\<rparr>)"
    using len by (auto simp del: uploadLoop.simps)
  have "uploadChunks env chunks w =
          uploadLoop env ?n 0 (take k chunks @ ?c # drop (Suc k) chunks) [] w"
    using split by (simp add: uploadChunks_def)
  then have R: "uploadChunks env chunks w =
      uploadLoop env ?n k (?c # drop (Suc k) chunks) (map key [0..<k])
        (w\<lparr>status := s, network := network w @
            concat (map (\<lambda>(j, c). presignEvents env j c @ putEvents env (u j) j c)
                      (zip [0..<k] (take k chunks)))\<rparr>)"
    using s by simp
  show ?thesis
  proof (cases "ok st")
    case False
    then show ?thesis
      using pk by (simp add: R uploadOne_def Let_def presignEvents_def callerKeys_def)
  next
    case True
    with bad have b: "body = Some d" "presignExtract d = Inr (uk, kk)"
      "stringifies uk" "stringifies kk" "putFails (putResponse env k)"
      by auto
    then show ?thesis
      using pk True
      by (cases "putResponse env k")
         (simp_all add: R uploadOne_def Let_def presignEvents_def putEvents_def putFails_def
            callerKeys_def)
  qed
qed

text \<open>
  Two chunks; the presign request of the second is answered with 500 in one run, and the
  PUT of the second with 403 in another.
\<close>

theorem upload_failure_aborts_without_keys_witness:
  "fst (uploadChunks presignFailsAt1 [webm 10, webm 20] initial) = Inl (PresignRequestError 500) \<and>
   network (snd (uploadChunks presignFailsAt1 [webm 10, webm 20] initial)) =
     presignEvents presignFailsAt1 0 (webm 10) @
     putEvents presignFailsAt1 (JStr ''https://s3/put/a'') 0 (webm 10) @
     presignEvents presignFailsAt1 1 (webm 20) \<and>
   fst (uploadChunks putFailsAt1 [webm 10, webm 20] initial) = Inl (ChunkUploadError 2 403) \<and>
   network (snd (uploadChunks putFailsAt1 [webm 10, webm 20] initial)) =
     presignEvents putFailsAt1 0 (webm 10) @
     putEvents putFailsAt1 (JStr ''https://s3/put/a'') 0 (webm 10) @
     presignEvents putFailsAt1 1 (webm 20) @
     putEvents putFailsAt1 (JStr ''https://s3/put/b'') 1 (webm 20)"
proof -
  have k: "1 < length [webm 10, webm 20]" by simp
  have n: "network initial = []" by (simp add: initial_def)
  have z: "[0..<1] = [0]" by (simp add: upt_rec)
  have g1: "\<forall>i<1. presignResponse presignFailsAt1 i = Resp 200 (Some (goodPresign i)) \<and> ok 200 \<and>
       presignExtract (goodPresign i) = Inr (JStr ''https://s3/put/a'', JStr ''chunk_a.webm'') \<and>
       stringifies (JStr ''https://s3/put/a'') \<and> stringifies (JStr ''chunk_a.webm'') \<and>
       putResponse presignFailsAt1 i = Resp 200 None \<and> ok 200"
    by (simp add: presignFailsAt1_def goodBackend_def goodPresign_def presignExtract_def deref_def
        ok_def Let_def)
  have p1: "presignResponse presignFailsAt1 1 = Resp 500 None"
    by (simp add: presignFailsAt1_def goodBackend_def)
  have b1: "\<not> ok 500 \<or> (None = Some JNull \<and> presignExtract JNull = Inr (JNull, JNull) \<and>
             stringifies JNull \<and> stringifies JNull \<and> putFails (putResponse presignFailsAt1 1))"
    by (simp add: ok_def)
  have g2: "\<forall>i<1. presignResponse putFailsAt1 i = Resp 200 (Some (goodPresign i)) \<and> ok 200 \<and>
       presignExtract (goodPresign i) = Inr (JStr ''https://s3/put/a'', JStr ''chunk_a.webm'') \<and>
       stringifies (JStr ''https://s3/put/a'') \<and> stringifies (JStr ''chunk_a.webm'') \<and>
       putResponse putFailsAt1 i = Resp 200 None \<and> ok 200"
    by (simp add: putFailsAt1_def goodBackend_def goodPresign_def presignExtract_def deref_def
        ok_def Let_def)
  have p2: "presignResponse putFailsAt1 1 = Resp 200 (Some (goodPresign 1))"
    by (simp add: putFailsAt1_def goodBackend_def)
  have b2: "\<not> ok 200 \<or> (Some (goodPresign 1) = Some (goodPresign 1) \<and>
             presignExtract (goodPresign 1) = Inr (JStr ''https://s3/put/b'', JStr ''chunk_b.webm'') \<and>
             stringifies (JStr ''https://s3/put/b'') \<and> stringifies (JStr ''chunk_b.webm'') \<and>
             putFails (putResponse putFailsAt1 1))"
    by (simp add: putFailsAt1_def goodBackend_def goodPresign_def presignExtract_def deref_def
        ok_def putFails_def Let_def)
  have q2: "putResponse putFailsAt1 (Suc 0) = Resp 403 None"
    by (simp add: putFailsAt1_def goodBackend_def)
  show ?thesis
    using upload_failure_aborts_without_keys[OF k g1 p1 b1, of initial]
      upload_failure_aborts_without_keys[OF k g2 p2 b2, of initial]
    unfolding z n by (simp add: ok_def q2)
qed

text \<open>
  Against claim C3 as stated: the first chunk is uploaded under the key
  \<open>chunk_a.webm\<close>, the presign request of the second is answered with 500, and what the
  caller receives is the error alone: the key of the uploaded chunk is not among the keys
  the caller holds.
\<close>

theorem upload_failure_discards_keys:
  "fst (uploadChunks presignFailsAt1 [webm 10, webm 20] initial) = Inl (PresignRequestError 500) \<and>
   Sent (PutChunk (JStr ''https://s3/put/a'') ''audio/webm'' (webm 10))
     \<in> set (network (snd (uploadChunks presignFailsAt1 [webm 10, webm 20] initial))) \<and>
   JStr ''chunk_a.webm''
     \<notin> set (callerKeys (fst (uploadChunks presignFailsAt1 [webm 10, webm 20] initial)))"
  by (simp add: uploadChunks_def uploadOne_def presignFailsAt1_def goodBackend_def goodPresign_def
      presignExtract_def deref_def ok_def callerKeys_def contentTypeOf_def extensionOf_def
      webm_def Let_def)

subsection \<open>Workflow Initiator\<close>

text \<open>
  Claim C5, as the code has it. After its chunk is uploaded (to a URL and under a key
  that convert to strings), \<open>processAudio\<close> treats an answer to the start request whose
  body is JSON and not \<open>null\<close> as follows. With a non-success status it fails with the
  processing-start error, which carries the status and the \<open>error\<close> field of the body or
  else \<open>Unknown error\<close>; when that field is a value that does not convert to a string,
  it fails with the \<open>TypeError\<close> of the conversion instead. With a success status it
  looks at two fields in turn: if \<open>executionArn\<close> is truthy it stores it, starts polling
  for it and returns \<open>null\<close>, leaving the edit-before-save flag alone; otherwise, if
  \<open>title\<close> is truthy, it fills title, transcript, summary and keywords from the body,
  enters the edit-before-save state, starts no timer and returns the body; otherwise it
  fails with the unexpected-response-shape error. The test for the second shape is the
  title alone.
\<close>

theorem start_response_dispatch:
  assumes "presignResponse env 0 = Resp pst (Some pd)" and "ok pst"
    and "presignExtract pd = Inr (u, k)" and "stringifies u" and "stringifies k"
    and "putResponse env 0 = Resp ust ub" and "ok ust"
    and "startResp = Resp st (Some body)" and "body \<noteq> JNull"
  shows "case processAudio rt env startResp listResp audioBlob w of (res, w') \<Rightarrow>
     (if \<not> ok st then
        res = Inl (if stringifies (orElse (field body ''error'') (JStr ''Unknown error''))
                   then ProcessingStartError st
                          (orElse (field body ''error'') (JStr ''Unknown error''))
                   else TypeError) \<and>
        status w' = AudioProcessingFailed
           (if stringifies (orElse (field body ''error'') (JStr ''Unknown error''))
            then ProcessingStartError st (orElse (field body ''error'') (JStr ''Unknown error''))
            else TypeError) \<and>
        timers w' = timers w \<and> isEditingBeforeSave w' = isEditingBeforeSave w
      else if truthy (field body ''executionArn'') then
        res = Inr None \<and> executionArn w' = field body ''executionArn'' \<and>
        pollingInterval w' = Some (nextHandle w) \<and>
        (\<exists>a. field body ''executionArn'' = Some a \<and>
           \<lparr>t_handle = nextHandle w, t_arn = a, t_period = 3000\<rparr> \<in> set (timers w')) \<and>
        processingStatus w' = Some AudioProcessing \<and>
        isEditingBeforeSave w' = isEditingBeforeSave w
      else if truthy (field body ''title'') then
        res = Inr (Some body) \<and> isEditingBeforeSave w' \<and>
        title w' = orElse (field body ''title'') (JStr untitled) \<and>
        transcript w' = orElse (field body ''transcript'') (JStr []) \<and>
        summary w' = orElse (field body ''summary'') (JStr []) \<and>
        keywordList w' = orElse (field body ''keywords'') (JArr []) \<and>
        timers w' = timers w \<and> pollingInterval w' = pollingInterval w \<and>
        executionArn w' = executionArn w \<and> processingStatus w' = None
      else
        res = Inl UnexpectedResponseShape \<and>
        status w' = AudioProcessingFailed UnexpectedResponseShape \<and>
        timers w' = timers w \<and> isEditingBeforeSave w' = isEditingBeforeSave w)"
proof -
  note pa = processAudio_dispatch[OF assms(1-7), of rt "Resp st (Some body)" listResp audioBlob w]
  consider (err) "\<not> ok st"
    | (async) "ok st" "truthy (field body ''executionArn'')"
    | (sync) "ok st" "\<not> truthy (field body ''executionArn'')" "truthy (field body ''title'')"
    | (other) "ok st" "\<not> truthy (field body ''executionArn'')" "\<not> truthy (field body ''title'')"
    by blast
  then show ?thesis
  proof cases
    case err
    then show ?thesis
      unfolding assms(8) pa dispatch_error[OF err assms(9)]
      by (simp add: afterUpload_def)
  next
    case async
    then obtain a where a: "field body ''executionArn'' = Some a" "truthy (Some a)"
      by (cases "field body ''executionArn''") auto
    show ?thesis
      unfolding assms(8) pa dispatch_async[OF async(1) assms(9) a]
      using async a
      by (simp add: afterUpload_def setPollingInterval_def clearInterval_def split: option.splits)
  next
    case sync
    show ?thesis
      unfolding assms(8) pa dispatch_sync[OF sync(1) assms(9) sync(2,3)]
      using sync
      by (simp add: fetchRecordings_frame afterUpload_def split: option.splits)
  next
    case other
    show ?thesis
      unfolding assms(8) pa dispatch_other[OF other(1) assms(9) other(2,3)]
      using other
      by (simp add: afterUpload_def)
  qed
qed

text \<open>
  One run for each case: an execution identifier, direct results, an object with neither,
  a status 500 with an error text, and a status 500 whose \<open>error\<close> field is an object with
  a \<open>toString\<close> property.
\<close>

theorem start_response_dispatch_witness:
  "fst (processAudio sampleRuntime goodBackend
          (Resp 200 (Some (JObj [(''executionArn'', JStr ''E2'')])))
          (Resp 200 (Some (JArr []))) (webm 10) initial) = Inr None \<and>
   pollingInterval (snd (processAudio sampleRuntime goodBackend
          (Resp 200 (Some (JObj [(''executionArn'', JStr ''E2'')])))
          (Resp 200 (Some (JArr []))) (webm 10) initial)) = Some 1 \<and>
   fst (processAudio sampleRuntime goodBackend
          (Resp 200 (Some (JObj [(''title'', JStr ''Memo''), (''transcript'', JStr ''hello'')])))
          (Resp 200 (Some (JArr []))) (webm 10) initial)
      = Inr (Some (JObj [(''title'', JStr ''Memo''), (''transcript'', JStr ''hello'')])) \<and>
   isEditingBeforeSave (snd (processAudio sampleRuntime goodBackend
          (Resp 200 (Some (JObj [(''title'', JStr ''Memo''), (''transcript'', JStr ''hello'')])))
          (Resp 200 (Some (JArr []))) (webm 10) initial)) \<and>
   fst (processAudio sampleRuntime goodBackend
          (Resp 200 (Some (JObj [(''message'', JStr ''queued'')])))
          (Resp 200 (Some (JArr []))) (webm 10) initial) = Inl UnexpectedResponseShape \<and>
   fst (processAudio sampleRuntime goodBackend
          (Resp 500 (Some (JObj [(''error'', JStr ''boom'')])))
          (Resp 200 (Some (JArr []))) (webm 10) initial)
      = Inl (ProcessingStartError 500 (JStr ''boom'')) \<and>
   fst (processAudio sampleRuntime goodBackend
          (Resp 500 (Some (JObj [(''error'', JObj [(''toString'', JNum 1)])])))
          (Resp 200 (Some (JArr []))) (webm 10) initial)
      = Inl TypeError"
proof -
  have g: "presignResponse goodBackend 0 = Resp 200 (Some (goodPresign 0))" "ok 200"
    "presignExtract (goodPresign 0) = Inr (JStr ''https://s3/put/a'', JStr ''chunk_a.webm'')"
    "stringifies (JStr ''https://s3/put/a'')" "stringifies (JStr ''chunk_a.webm'')"
    "putResponse goodBackend 0 = Resp 200 None"
    by (simp_all add: goodBackend_def goodPresign_def presignExtract_def deref_def ok_def Let_def)
  note t = start_response_dispatch[where rt = sampleRuntime
      and listResp = "Resp 200 (Some (JArr []))" and audioBlob = "webm 10" and w = initial,
      OF g(1,2,3,4,5,6,2) refl]
  show ?thesis
    using t[where st = 200 and body = "JObj [(''executionArn'', JStr ''E2'')]"]
      t[where st = 200 and body = "JObj [(''title'', JStr ''Memo''), (''transcript'', JStr ''hello'')]"]
      t[where st = 200 and body = "JObj [(''message'', JStr ''queued'')]"]
      t[where st = 500 and body = "JObj [(''error'', JStr ''boom'')]"]
      t[where st = 500 and body = "JObj [(''error'', JObj [(''toString'', JNum 1)])]"]
    by (simp add: case_prod_beta ok_def orElse_def initial_def)
qed

text \<open>
  Against claim C5 as stated. A success response that carries all four result fields
  directly, with an empty title, is not taken as finished: it fails with the
  unexpected-response-shape error. And a status 502 whose body is not JSON fails with the
  error of reading the body, which carries no status, not with the processing-start
  error.
\<close>

theorem start_response_dispatch_title_guard:
  "fst (processAudio sampleRuntime goodBackend
          (Resp 200 (Some (JObj [(''title'', JStr []), (''transcript'', JStr ''hello''),
                                 (''summary'', JStr ''greeting''),
                                 (''keywords'', JArr [JStr ''hi''])])))
          (Resp 200 (Some (JArr []))) (webm 10) initial) = Inl UnexpectedResponseShape \<and>
   fst (processAudio sampleRuntime goodBackend (Resp 502 None)
          (Resp 200 (Some (JArr []))) (webm 10) initial) = Inl SyntaxError"
  by (simp add: processAudio_def createChunks_def webm_def MAX_CHUNK_SIZE_def uploadChunks_def
      uploadOne_def goodBackend_def goodPresign_def presignExtract_def deref_def ok_def
      startDispatch_def truthyValue_def Let_def)

subsection \<open>Status Poller\<close>

text \<open>
  Claim C2, as the code has it. Take a tick of a poll whose execution id converts to a
  string, whose response has status \<open>completed\<close> and a \<open>result\<close> value \<open>r\<close>. When \<open>r\<close> is an
  object that carries a string under its own \<open>result\<close> field, the poller parses that
  string: if parsing succeeds, title, transcript, summary and keywords are read from the
  parsed value, not from \<open>r\<close>; if parsing fails, the failure is logged and the four fields
  are read from \<open>r\<close> itself. In every other case nothing is decoded and the four fields
  are read from \<open>r\<close>; in particular, when \<open>r\<close> is itself a string, whatever it encodes, it
  is not parsed and all four fields take their defaults. In all cases a field that is
  missing or falsy takes its default (the untitled text, the empty string, the empty
  list), polling has been stopped, and unless the audio reference of the value throws
  (as it does on a chunk key that does not convert to a string), the tick goes on to the
  edit-before-save state and refreshes the list. (The value read from is assumed not to
  be \<open>null\<close>.)
\<close>

theorem completed_tick_nested_payload:
  assumes "statusResp = Resp st (Some d)"
    and "field d ''status'' = Some (JStr ''completed'')"
    and "field d ''result'' = Some r"
    and "src = (case field r ''result'' of
                  Some (JStr s) \<Rightarrow> (case JSON_parse rt s of Some v \<Rightarrow> v | None \<Rightarrow> r)
                | _ \<Rightarrow> r)"
    and "src \<noteq> JNull"
    and "stringifies a"
  shows "let w' = pollTick rt h a statusResp listResp w in
      title w' = orElse (field src ''title'') (JStr untitled) \<and>
      transcript w' = orElse (field src ''transcript'') (JStr []) \<and>
      summary w' = orElse (field src ''summary'') (JStr []) \<and>
      keywordList w' = orElse (field src ''keywords'') (JArr []) \<and>
      (\<forall>s. field r ''result'' = Some (JStr s) \<and> JSON_parse rt s = None \<longrightarrow>
         ErrResultDecode \<in> set (console w')) \<and>
      (\<forall>s. r = JStr s \<longrightarrow>
         title w' = JStr untitled \<and> transcript w' = JStr [] \<and> summary w' = JStr [] \<and>
         keywordList w' = JArr []) \<and>
      (\<not> isl (audioOf rt src) \<longrightarrow>
         isEditingBeforeSave w' \<and> processingStatus w' = None \<and>
         Sent GetList \<in> set (network w')) \<and>
      h \<notin> t_handle ` set (timers w') \<and> pollingInterval w' = None \<and> executionArn w' = None"
proof -
  have d: "deref (Some d) = Inr d" using assms(2) by (rule deref_field)
  have sr: "deref (Some src) = Inr src" using assms(5) by (rule deref_not_null)
  have str: "src = r" "field r k = None" if "r = JStr s" for s k
    using that assms(4) by simp_all
  consider (fail) s where "field r ''result'' = Some (JStr s)" "JSON_parse rt s = None"
    | (parsed) s v where "field r ''result'' = Some (JStr s)" "JSON_parse rt s = Some v"
    | (plain) "\<And>s. field r ''result'' \<noteq> Some (JStr s)"
    by (cases "\<exists>s. field r ''result'' = Some (JStr s)") auto
  then show ?thesis
  proof cases
    case fail
    then have src: "src = r" using assms(4) by simp
    note dn = decodeNested_string[OF fail(1)]
    show ?thesis
      using assms(1,2,3,6) d sr fail src
      by (cases "audioOf rt r")
         (auto simp add: pollTick_def pollBody_def completedBranch_def dn fetchRecordings_def
           applyAudio_def setPollingInterval_def clearInterval_def Let_def
           split: option.splits sum.splits audio_ref.splits)
  next
    case parsed
    then have src: "src = v" using assms(4) by simp
    have nostr: "r \<noteq> JStr s'" for s' using parsed(1) by auto
    note dn = decodeNested_string[OF parsed(1)]
    show ?thesis
      using assms(1,2,3,6) d sr parsed src nostr
      by (cases "audioOf rt v")
         (auto simp add: pollTick_def pollBody_def completedBranch_def dn fetchRecordings_def
           applyAudio_def setPollingInterval_def clearInterval_def Let_def
           split: option.splits sum.splits audio_ref.splits)
  next
    case plain
    have src: "src = r"
    proof (cases "field r ''result''")
      case None
      then show ?thesis using assms(4) by simp
    next
      case (Some x)
      show ?thesis
      proof (cases x)
        case (JStr s)
        with Some plain[of s] show ?thesis by simp
      qed (use assms(4) Some in simp_all)
    qed
    have nofail: "field r ''result'' \<noteq> Some (JStr s)" for s by (rule plain)
    note dn = decodeNested_plain[OF plain]
    have flds: "r = JStr s \<Longrightarrow> orElse (field r k) v = v" for s k v
      by (simp add: orElse_def)
    show ?thesis
      using assms(1,2,3,6) d sr[unfolded src] nofail flds unfolding src
      by (cases "audioOf rt r")
         (auto simp add: pollTick_def pollBody_def completedBranch_def dn fetchRecordings_def
           applyAudio_def setPollingInterval_def clearInterval_def Let_def
           split: option.splits sum.splits audio_ref.splits)
  qed
qed

text \<open>
  The nested text parses to a value with title \<open>Inner\<close>; the result object around it has
  title \<open>Outer\<close>. The title shown is \<open>Inner\<close>. And a result that is the plain string
  \<open>done\<close> leaves the title at its default.
\<close>

theorem completed_tick_nested_payload_witness:
  "title (pollTick sampleRuntime 1 (JStr ''E1'')
      (Resp 200 (Some (JObj [(''status'', JStr ''completed''),
         (''result'', JObj [(''result'', JStr nestedText), (''title'', JStr ''Outer'')])])))
      (Resp 200 (Some (JArr []))) pollingE1) = JStr ''Inner'' \<and>
   summary (pollTick sampleRuntime 1 (JStr ''E1'')
      (Resp 200 (Some (JObj [(''status'', JStr ''completed''),
         (''result'', JObj [(''result'', JStr nestedText), (''title'', JStr ''Outer'')])])))
      (Resp 200 (Some (JArr []))) pollingE1) = JStr ''S'' \<and>
   transcript (pollTick sampleRuntime 1 (JStr ''E1'')
      (Resp 200 (Some (JObj [(''status'', JStr ''completed''),
         (''result'', JObj [(''result'', JStr nestedText), (''title'', JStr ''Outer'')])])))
      (Resp 200 (Some (JArr []))) pollingE1) = JStr [] \<and>
   isEditingBeforeSave (pollTick sampleRuntime 1 (JStr ''E1'')
      (Resp 200 (Some (JObj [(''status'', JStr ''completed''),
         (''result'', JObj [(''result'', JStr nestedText), (''title'', JStr ''Outer'')])])))
      (Resp 200 (Some (JArr []))) pollingE1) \<and>
   title (pollTick sampleRuntime 1 (JStr ''E1'')
      (Resp 200 (Some (JObj [(''status'', JStr ''completed''), (''result'', JStr ''done'')])))
      (Resp 200 (Some (JArr []))) pollingE1) = JStr untitled"
proof -
  let ?r = "JObj [(''result'', JStr nestedText), (''title'', JStr ''Outer'')]"
  let ?d = "JObj [(''status'', JStr ''completed''), (''result'', ?r)]"
  let ?e = "JObj [(''status'', JStr ''completed''), (''result'', JStr ''done'')]"
  have p: "nestedValue =
      (case field ?r ''result'' of
         Some (JStr s) \<Rightarrow> (case JSON_parse sampleRuntime s of Some v \<Rightarrow> v | None \<Rightarrow> ?r)
       | _ \<Rightarrow> ?r)"
    by (simp add: sampleRuntime_def)
  have q: "JStr ''done'' =
      (case field (JStr ''done'') ''result'' of
         Some (JStr s) \<Rightarrow> (case JSON_parse sampleRuntime s of Some v \<Rightarrow> v | None \<Rightarrow> JStr ''done'')
       | _ \<Rightarrow> JStr ''done'')"
    by simp
  have a: "\<not> isl (audioOf sampleRuntime nestedValue)"
    by (simp add: audioOf_def nestedValue_def)
  have n: "nestedValue \<noteq> JNull" "JStr ''done'' \<noteq> JNull" by (simp_all add: nestedValue_def)
  have e: "stringifies (JStr ''E1'')" by simp
  have f: "field nestedValue ''title'' = Some (JStr ''Inner'')"
    "field nestedValue ''summary'' = Some (JStr ''S'')"
    "field nestedValue ''transcript'' = None"
    by (simp_all add: nestedValue_def)
  have 1: "title (pollTick sampleRuntime 1 (JStr ''E1'') (Resp 200 (Some ?d))
              (Resp 200 (Some (JArr []))) pollingE1) = JStr ''Inner'' \<and>
           summary (pollTick sampleRuntime 1 (JStr ''E1'') (Resp 200 (Some ?d))
              (Resp 200 (Some (JArr []))) pollingE1) = JStr ''S'' \<and>
           transcript (pollTick sampleRuntime 1 (JStr ''E1'') (Resp 200 (Some ?d))
              (Resp 200 (Some (JArr []))) pollingE1) = JStr [] \<and>
           isEditingBeforeSave (pollTick sampleRuntime 1 (JStr ''E1'') (Resp 200 (Some ?d))
              (Resp 200 (Some (JArr []))) pollingE1)"
    using completed_tick_nested_payload[where statusResp = "Resp 200 (Some ?d)" and st = 200
        and d = ?d and r = ?r and src = nestedValue and rt = sampleRuntime and h = 1
        and a = "JStr ''E1''" and listResp = "Resp 200 (Some (JArr []))" and w = pollingE1,
        OF refl _ _ p n(1) e] a
    by (simp add: Let_def f orElse_def)
  have 2: "title (pollTick sampleRuntime 1 (JStr ''E1'') (Resp 200 (Some ?e))
              (Resp 200 (Some (JArr []))) pollingE1) = JStr untitled"
    using completed_tick_nested_payload[where statusResp = "Resp 200 (Some ?e)" and st = 200
        and d = ?e and r = "JStr ''done''" and src = "JStr ''done''" and rt = sampleRuntime
        and h = 1 and a = "JStr ''E1''" and listResp = "Resp 200 (Some (JArr []))"
        and w = pollingE1, OF refl _ _ q n(2) e]
    by (simp add: Let_def orElse_def)
  show ?thesis using 1 2 by simp
qed

text \<open>
  Against claim C2 as stated, twice. First, the \<open>result\<close> field is itself the string that
  encodes \<open>{"title":"Inner","summary":"S"}\<close>, a string that \<open>JSON.parse\<close> accepts: the
  poller does not decode it, and title and summary are the defaults, not \<open>Inner\<close> and
  \<open>S\<close>. Second, the nested string under the \<open>result\<close> field of the result object does not
  parse, and the fields do not fall back to their defaults: title and transcript are those
  of the result object around the string.
\<close>

theorem completed_tick_decode_failure_keeps_outer:
  "JSON_parse sampleRuntime nestedText = Some nestedValue \<and>
   title (pollTick sampleRuntime 1 (JStr ''E1'')
      (Resp 200 (Some (JObj [(''status'', JStr ''completed''), (''result'', JStr nestedText)])))
      (Resp 200 (Some (JArr []))) pollingE1) = JStr untitled \<and>
   summary (pollTick sampleRuntime 1 (JStr ''E1'')
      (Resp 200 (Some (JObj [(''status'', JStr ''completed''), (''result'', JStr nestedText)])))
      (Resp 200 (Some (JArr []))) pollingE1) = JStr [] \<and>
   JSON_parse sampleRuntime ''{nope'' = None \<and>
   title (pollTick sampleRuntime 1 (JStr ''E1'')
      (Resp 200 (Some (JObj [(''status'', JStr ''completed''),
         (''result'', JObj [(''result'', JStr ''{nope''), (''title'', JStr ''Outer''),
                            (''transcript'', JStr ''T'')])])))
      (Resp 200 (Some (JArr []))) pollingE1) = JStr ''Outer'' \<and>
   transcript (pollTick sampleRuntime 1 (JStr ''E1'')
      (Resp 200 (Some (JObj [(''status'', JStr ''completed''),
         (''result'', JObj [(''result'', JStr ''{nope''), (''title'', JStr ''Outer''),
                            (''transcript'', JStr ''T'')])])))
      (Resp 200 (Some (JArr []))) pollingE1) = JStr ''T''"
  by (simp add: sampleRuntime_def nestedText_def pollTick_def pollBody_def completedBranch_def
      decodeNested_def deref_def audioOf_def applyAudio_def fetchRecordings_def listOutcome_def
      sortRecordings_def ok_def orElse_def Let_def)

text \<open>
  Claim C7. On a tick of a poll whose execution id converts to a string, whose response
  has status \<open>failed\<close> and whose error text (the \<open>error\<close> field, or the fallback when
  there is none) converts to a string, polling stops (the interval is cleared and both
  the handle cell and the execution id are reset), the error text becomes the status
  message, no error is logged, the recordings are not touched, and the status request is
  the only request of the tick: no list refresh is sent.
\<close>

theorem failed_tick_stops_polling_keeps_recordings:
  assumes "statusResp = Resp st (Some d)"
    and "field d ''status'' = Some (JStr ''failed'')"
    and "stringifies a"
    and "stringifies (orElse (field d ''error'') (JStr unknownError))"
  shows "let w' = pollTick rt h a statusResp listResp w in
           h \<notin> t_handle ` set (timers w') \<and>
           set (timers w') \<subseteq> set (timers w) \<and>
           pollingInterval w' = None \<and>
           executionArn w' = None \<and>
           status w' = WorkflowFailed (orElse (field d ''error'') (JStr unknownError)) \<and>
           processingStatus w' = None \<and>
           recordings w' = recordings w \<and>
           console w' = console w \<and>
           network w' = network w @ [Sent (GetStatus a), Settled statusResp]"
proof -
  have "pollTick rt h a statusResp listResp w =
          (setPollingInterval None (clearInterval h w))
            \<lparr>executionArn := None,
             status := WorkflowFailed (orElse (field d ''error'') (JStr unknownError)),
             processingStatus := None,
             network := network w @ [Sent (GetStatus a), Settled statusResp]\<rparr>"
    using assms deref_field[OF assms(2)]
    by (simp add: pollTick_def pollBody_def failedBranch_def setPollingInterval_def
        clearInterval_def Let_def split: option.splits)
  then show ?thesis
    by (auto simp add: Let_def setPollingInterval_def clearInterval_def split: option.splits)
qed

text \<open>The session polling for \<open>E1\<close> receives \<open>{status: "failed", error: "boom"}\<close>.\<close>

theorem failed_tick_stops_polling_keeps_recordings_witness:
  "timers (pollTick sampleRuntime 1 (JStr ''E1'')
      (Resp 200 (Some (JObj [(''status'', JStr ''failed''), (''error'', JStr ''boom'')])))
      Rejected pollingE1) = [] \<and>
   status (pollTick sampleRuntime 1 (JStr ''E1'')
      (Resp 200 (Some (JObj [(''status'', JStr ''failed''), (''error'', JStr ''boom'')])))
      Rejected pollingE1) = WorkflowFailed (JStr ''boom'') \<and>
   recordings (pollTick sampleRuntime 1 (JStr ''E1'')
      (Resp 200 (Some (JObj [(''status'', JStr ''failed''), (''error'', JStr ''boom'')])))
      Rejected pollingE1) = [sampleRecording] \<and>
   console (pollTick sampleRuntime 1 (JStr ''E1'')
      (Resp 200 (Some (JObj [(''status'', JStr ''failed''), (''error'', JStr ''boom'')])))
      Rejected pollingE1) = [] \<and>
   network (pollTick sampleRuntime 1 (JStr ''E1'')
      (Resp 200 (Some (JObj [(''status'', JStr ''failed''), (''error'', JStr ''boom'')])))
      Rejected pollingE1) =
     [Sent (GetStatus (JStr ''E1'')),
      Settled (Resp 200 (Some (JObj [(''status'', JStr ''failed''), (''error'', JStr ''boom'')])))]"
  using failed_tick_stops_polling_keeps_recordings[where
      statusResp = "Resp 200 (Some (JObj [(''status'', JStr ''failed''), (''error'', JStr ''boom'')]))"
      and st = 200 and d = "JObj [(''status'', JStr ''failed''), (''error'', JStr ''boom'')]"
      and rt = sampleRuntime and h = 1 and a = "JStr ''E1''" and listResp = Rejected
      and w = pollingE1]
  by (simp add: Let_def orElse_def pollingE1_def startPolling_def setInterval_def
      setPollingInterval_def initial_def pollTick_def pollBody_def failedBranch_def
      clearInterval_def deref_def)

text \<open>
  Claim C8. On ticks of a live timer (one whose execution id converts to a string, so
  that the request is sent) whose status request fails, by a network error or
  an unparsable body, the failure is not fatal for the loop: each failure is logged, the
  status-fetch-failure message is shown, the timer table is left as it is (so the timer
  stays live with its period of 3000 ms, and the next tick sends the next request), the
  handle cell and the execution id are kept, and this holds for any number of failing
  ticks in a row: one request per tick, none held back, none given up.
\<close>

theorem poll_request_failure_nonfatal:
  assumes "list_all requestFails rs"
    and "find (\<lambda>t. t_handle t = h) (timers w) = Some t"
    and "stringifies (t_arn t)"
  shows "let w' = timerFiresEach rt h rs listResp w in
           timers w' = timers w \<and>
           pollingInterval w' = pollingInterval w \<and>
           executionArn w' = executionArn w \<and>
           recordings w' = recordings w \<and>
           network w' = network w @
             concat (map (\<lambda>r. [Sent (GetStatus (t_arn t)), Settled r]) rs) \<and>
           console w' = console w @ map (\<lambda>r. ErrStatus (failureOf r)) rs \<and>
           status w' = (if rs = [] then status w else StatusFetchFailed) \<and>
           processingStatus w' = (if rs = [] then processingStatus w else None)"
  unfolding ticks_fail[OF assms] by (simp add: Let_def)

text \<open>Three failing ticks in the session polling for \<open>E1\<close>.\<close>

theorem poll_request_failure_nonfatal_witness:
  "timers (timerFiresEach sampleRuntime 1 [Rejected, Resp 502 None, Rejected] Rejected pollingE1) =
     [\<lparr>t_handle = 1, t_arn = JStr ''E1'', t_period = 3000\<rparr>] \<and>
   network (timerFiresEach sampleRuntime 1 [Rejected, Resp 502 None, Rejected] Rejected pollingE1) =
     [Sent (GetStatus (JStr ''E1'')), Settled Rejected,
      Sent (GetStatus (JStr ''E1'')), Settled (Resp 502 None),
      Sent (GetStatus (JStr ''E1'')), Settled Rejected] \<and>
   status (timerFiresEach sampleRuntime 1 [Rejected, Resp 502 None, Rejected] Rejected pollingE1) =
     StatusFetchFailed"
proof -
  have p: "timers pollingE1 = [\<lparr>t_handle = 1, t_arn = JStr ''E1'', t_period = 3000\<rparr>]"
    "network pollingE1 = []"
    by (simp_all add: pollingE1_def initial_def startPolling_def setInterval_def
        setPollingInterval_def)
  have f: "find (\<lambda>t. t_handle t = 1) (timers pollingE1) =
             Some \<lparr>t_handle = 1, t_arn = JStr ''E1'', t_period = 3000\<rparr>"
    by (simp add: p)
  have r: "list_all requestFails [Rejected, Resp 502 None, Rejected]"
    by (simp add: requestFails_def)
  have s: "stringifies (t_arn \<lparr>t_handle = 1, t_arn = JStr ''E1'', t_period = 3000\<rparr>)"
    by simp
  show ?thesis
    using poll_request_failure_nonfatal[OF r f s, of sampleRuntime Rejected]
    by (simp add: Let_def p)
qed

text \<open>
  Claim C1, on the code. Polling for \<open>E1\<close> has started and no tick has fired yet; a new
  recording session starts. \<open>startRecording\<close> resets the execution id, but the interval
  of \<open>E1\<close> is still in the timer table. When it fires during the new session, the response
  for \<open>E1\<close> is written into the state: a running status sets the progress message, and a
  completed status fills the title with the result of \<open>E1\<close> and opens the
  edit-before-save form. The interval of \<open>E1\<close> goes away only when the new session starts
  its own poll for \<open>E2\<close>.
\<close>

theorem stale_timer_fires_after_new_session:
  "isRecording (startRecording True pollingE1) \<and>
   executionArn (startRecording True pollingE1) = None \<and>
   timers (startRecording True pollingE1) =
     [\<lparr>t_handle = 1, t_arn = JStr ''E1'', t_period = 3000\<rparr>] \<and>
   processingStatus (timerFires sampleRuntime 1
        (Resp 200 (Some (JObj [(''status'', JStr ''running'')])))
        Rejected (startRecording True pollingE1)) = Some (Progress (JStr inProgress)) \<and>
   network (timerFires sampleRuntime 1
        (Resp 200 (Some (JObj [(''status'', JStr ''running'')])))
        Rejected (startRecording True pollingE1)) =
      [Sent (GetStatus (JStr ''E1'')),
       Settled (Resp 200 (Some (JObj [(''status'', JStr ''running'')])))] \<and>
   title (timerFires sampleRuntime 1
        (Resp 200 (Some (JObj [(''status'', JStr ''completed''),
                               (''result'', JObj [(''title'', JStr ''Old'')])])))
        (Resp 200 (Some (JArr []))) (startRecording True pollingE1)) = JStr ''Old'' \<and>
   isEditingBeforeSave (timerFires sampleRuntime 1
        (Resp 200 (Some (JObj [(''status'', JStr ''completed''),
                               (''result'', JObj [(''title'', JStr ''Old'')])])))
        (Resp 200 (Some (JArr []))) (startRecording True pollingE1)) \<and>
   timers (snd (startPolling (JStr ''E2'')
        (timerFires sampleRuntime 1
           (Resp 200 (Some (JObj [(''status'', JStr ''running'')])))
           Rejected (startRecording True pollingE1)))) =
     [\<lparr>t_handle = 3, t_arn = JStr ''E2'', t_period = 3000\<rparr>]"
  by (simp add: pollingE1_def initial_def startPolling_def setInterval_def setPollingInterval_def
      startRecording_def resetState_def timerFires_def pollTick_def pollBody_def deref_def
      progressBranch_def completedBranch_def decodeNested_def audioOf_def applyAudio_def
      fetchRecordings_def listOutcome_def sortRecordings_def sampleRuntime_def ok_def
      clearInterval_def orElse_def Let_def)

subsection \<open>Recording Store\<close>

text \<open>
  Claim C10. If the list fetch fails, by a rejected request, a non-success status, or any
  error thrown inside the \<open>try\<close> block, the cached recordings are left as they were: the
  error path writes the status message and nothing else (the request itself is the only
  other trace).
\<close>

theorem fetchRecordings_failure_keeps_recordings:
  assumes "resp = Rejected \<or> (\<exists>st body. resp = Resp st body \<and> \<not> ok st) \<or>
           (\<exists>e. listOutcome rt resp = Inl e)"
  shows "recordings (fetchRecordings rt resp w) = recordings w \<and>
         (\<exists>e. fetchRecordings rt resp w =
                 w\<lparr>status := ListFailed e,
                   network := network w @ [Sent GetList, Settled resp]\<rparr>)"
proof -
  from assms obtain e where e: "listOutcome rt resp = Inl e"
    by (auto simp: listOutcome_def)
  have "fetchRecordings rt resp w =
          w\<lparr>status := ListFailed e, network := network w @ [Sent GetList, Settled resp]\<rparr>"
    using e by (simp add: fetchRecordings_def Let_def)
  then show ?thesis by auto
qed

text \<open>A status 500 and a rejected request, with one recording on display.\<close>

theorem fetchRecordings_failure_keeps_recordings_witness:
  "recordings (fetchRecordings sampleRuntime (Resp 500 None) pollingE1) = [sampleRecording] \<and>
   recordings (fetchRecordings sampleRuntime Rejected pollingE1) = [sampleRecording]"
  using fetchRecordings_failure_keeps_recordings[of "Resp 500 None" sampleRuntime pollingE1]
    fetchRecordings_failure_keeps_recordings[of Rejected sampleRuntime pollingE1]
  by (simp add: ok_def pollingE1_def startPolling_def setInterval_def setPollingInterval_def
      initial_def)

end
